theory Spec2Isabelle
  imports Complex_Main
begin

section \<open>JavaScript values met by the report service\<close>

text \<open>
  A JavaScript number is either \<open>NaN\<close> or a finite value.  Finite values are kept as exact
  rationals: the rounding of IEEE doubles and the overflow to \<open>Infinity\<close> are not
  modelled.  Addition makes \<open>NaN\<close> absorbing, as \<open>+=\<close> on numbers does.
\<close>

datatype jsnum = NaN | Fin rat

instantiation jsnum :: comm_monoid_add
begin

definition zero_jsnum :: jsnum where
  "zero_jsnum = Fin 0"

fun plus_jsnum :: "jsnum \<Rightarrow> jsnum \<Rightarrow> jsnum" where
  "plus_jsnum (Fin a) (Fin b) = Fin (a + b)"
| "plus_jsnum NaN y = NaN"
| "plus_jsnum (Fin a) NaN = NaN"

instance
proof
  fix x y z :: jsnum
  show "x + y = y + x"
    by (cases x; cases y; simp add: add.commute)
  show "(x + y) + z = x + (y + z)"
    by (cases x; cases y; cases z; simp)
  show "0 + x = x"
    unfolding zero_jsnum_def by (cases x; simp)
qed

end

text \<open>\<open>x || 0\<close> on a number: \<open>NaN\<close> and \<open>0\<close> are falsy, so both give \<open>0\<close>.\<close>

definition orZero :: "jsnum \<Rightarrow> jsnum" where
  "orZero x = (if x = NaN \<or> x = Fin 0 then Fin 0 else x)"

text \<open>
  A cell of a fetched grid.  The sheet API answers with formatted strings; a row is cut
  after its last filled cell, so reading beyond it gives \<open>undefined\<close>.  \<open>Num\<close> stands for
  a JSON number that is integral (its \<open>toString\<close> is then its plain decimal numeral).
\<close>

datatype cell = Undefined | Str string | Num int

type_synonym row = "cell list"
type_synonym grid = "row list"

text \<open>\<open>row[k]\<close>: out of range reads \<open>undefined\<close>.\<close>

definition cell_at :: "row \<Rightarrow> nat \<Rightarrow> cell" where
  "cell_at r k = (if k < length r then r ! k else Undefined)"

text \<open>Truthiness, as tested by \<open>x && ...\<close>, \<open>x ? ... : ...\<close> and \<open>a || b\<close>.\<close>

fun js_truthy :: "cell \<Rightarrow> bool" where
  "js_truthy Undefined = False"
| "js_truthy (Str s) = (s \<noteq> [])"
| "js_truthy (Num n) = (n \<noteq> 0)"

subsection \<open>Decimal numerals\<close>

definition digit_char :: "nat \<Rightarrow> char" where
  "digit_char d = ''0123456789'' ! d"

fun show_nat :: "nat \<Rightarrow> string" where
  "show_nat n = (if n < 10 then [digit_char n] else show_nat (n div 10) @ [digit_char (n mod 10)])"

declare show_nat.simps [simp del]

definition show_int :: "int \<Rightarrow> string" where
  "show_int i = (if i < 0 then CHR ''-'' # show_nat (nat (- i)) else show_nat (nat i))"

text \<open>
  \<open>x.toString()\<close>.  The source calls it only behind a truthiness test of the same value,
  so it is never reached at \<open>undefined\<close> (where JavaScript would raise); the text given
  there is never used by the model.
\<close>

fun toStr :: "cell \<Rightarrow> string" where
  "toStr Undefined = []"
| "toStr (Str s) = s"
| "toStr (Num n) = show_int n"

text \<open>\<open>s.padStart(2, '0')\<close>.\<close>

definition padStart2 :: "string \<Rightarrow> string" where
  "padStart2 s = replicate (2 - length s) CHR ''0'' @ s"

subsection \<open>String operations\<close>

text \<open>Strings are sequences of bytes; case mapping and white space are those of ASCII.\<close>

definition lowerLetters :: string where
  "lowerLetters = ''abcdefghijklmnopqrstuvwxyz''"

definition upperLetters :: string where
  "upperLetters = ''ABCDEFGHIJKLMNOPQRSTUVWXYZ''"

definition upperChar :: "char \<Rightarrow> char" where
  "upperChar c = (case map_of (zip lowerLetters upperLetters) c of None \<Rightarrow> c | Some u \<Rightarrow> u)"

definition lowerChar :: "char \<Rightarrow> char" where
  "lowerChar c = (case map_of (zip upperLetters lowerLetters) c of None \<Rightarrow> c | Some l \<Rightarrow> l)"

definition toUpperCase :: "string \<Rightarrow> string" where
  "toUpperCase s = map upperChar s"

definition toLowerCase :: "string \<Rightarrow> string" where
  "toLowerCase s = map lowerChar s"

definition is_space :: "char \<Rightarrow> bool" where
  "is_space c = (c \<in> set [CHR '' '', CHR 0x09, CHR 0x0A, CHR 0x0B, CHR 0x0C, CHR 0x0D])"

definition trim :: "string \<Rightarrow> string" where
  "trim s = rev (dropWhile is_space (rev (dropWhile is_space s)))"

fun starts_with :: "string \<Rightarrow> string \<Rightarrow> bool" where
  "starts_with s [] = True"
| "starts_with [] (p # ps) = False"
| "starts_with (c # cs) (p # ps) = (c = p \<and> starts_with cs ps)"

text \<open>\<open>s.includes(sub)\<close>: \<open>sub\<close> occurs in \<open>s\<close> as a contiguous run.\<close>

fun includesStr :: "string \<Rightarrow> string \<Rightarrow> bool" where
  "includesStr [] sub = (sub = [])"
| "includesStr (c # cs) sub = (starts_with (c # cs) sub \<or> includesStr cs sub)"

text \<open>\<open>separator.join\<close> of JavaScript arrays.\<close>

fun join :: "string \<Rightarrow> string list \<Rightarrow> string" where
  "join sep [] = []"
| "join sep [x] = x"
| "join sep (x # y # ys) = x @ sep @ join sep (y # ys)"

subsection \<open>Numeric coercion of a cell\<close>

definition is_digit :: "char \<Rightarrow> bool" where
  "is_digit c = (c \<in> set ''0123456789'')"

definition digit_val :: "char \<Rightarrow> nat" where
  "digit_val c = (of_char c :: nat) - 48"

text \<open>\<open>s.replace(/[^\d.-]/g, '')\<close>: keep digits, dots and minus signs.\<close>

definition stripNonNumeric :: "string \<Rightarrow> string" where
  "stripNonNumeric s = filter (\<lambda>c. is_digit c \<or> c = CHR ''.'' \<or> c = CHR ''-'') s"

definition digits_value :: "string \<Rightarrow> nat" where
  "digits_value ds = foldl (\<lambda>n c. 10 * n + digit_val c) 0 ds"

text \<open>
  \<open>parseFloat\<close> on a stripped text, which holds digits, dots and minus signs only (no
  white space, plus sign, exponent or letter can occur there): the longest prefix of the
  shape \<open>-? digits (. digits?)?\<close> or \<open>-? . digits\<close> is read as a decimal numeral; when
  there is no such prefix the result is \<open>NaN\<close>.
\<close>

definition parseFloat :: "string \<Rightarrow> jsnum" where
  "parseFloat s =
     (let neg = (s \<noteq> [] \<and> hd s = CHR ''-'');
          r = (if neg then tl s else s);
          ip = takeWhile is_digit r;
          r1 = dropWhile is_digit r;
          fp = (if r1 \<noteq> [] \<and> hd r1 = CHR ''.'' then takeWhile is_digit (tl r1) else [])
      in if ip = [] \<and> fp = [] then NaN
         else Fin ((if neg then - 1 else 1) * of_nat (digits_value (ip @ fp)) / 10 ^ length fp))"

text \<open>\<open>x ? parseFloat(x.toString().replace(/[^\d.-]/g, '')) : 0\<close>.\<close>

definition numberOf :: "cell \<Rightarrow> jsnum" where
  "numberOf x = (if js_truthy x then parseFloat (stripNonNumeric (toStr x)) else 0)"

section \<open>The data source\<close>

text \<open>
  \<open>sheetManager.getSheetData\<close> either answers with a grid (the empty grid when the range
  holds no data) or raises.  Each call of the service is given its own outcome.
\<close>

datatype error = TransportError

type_synonym fetched = "error + grid"

section \<open>Section boundary: the row before the PENGELUARAN header\<close>

text \<open>
  The loop over \<open>searchData\<close> (column B from row 13 on): index \<open>i\<close> is sheet row \<open>13 + i\<close>.
  The initial value of \<open>endRow\<close> is 300 in the report service and 200 in the command-line
  report.
\<close>

definition isPengeluaranLabel :: "cell \<Rightarrow> bool" where
  "isPengeluaranLabel cellValue =
     (js_truthy cellValue \<and> includesStr (toUpperCase (toStr cellValue)) ''PENGELUARAN'')"

fun scanEndRow :: "nat \<Rightarrow> nat \<Rightarrow> grid \<Rightarrow> nat" where
  "scanEndRow endRow i [] = endRow"
| "scanEndRow endRow i (r # rest) =
     (if isPengeluaranLabel (cell_at r 0) then 13 + i - 1
      else scanEndRow endRow (Suc i) rest)"

definition findEndRow :: "nat \<Rightarrow> grid \<Rightarrow> nat" where
  "findEndRow fallback searchData = scanEndRow fallback 0 searchData"

section \<open>Day segments\<close>

text \<open>\<open>dateValue && dateValue.toString && dateValue.toString().trim() !== ''\<close>.\<close>

definition hasDate :: "cell \<Rightarrow> bool" where
  "hasDate dateValue = (js_truthy dateValue \<and> trim (toStr dateValue) \<noteq> [])"

text \<open>
  The update of \<open>currentDate\<close> by one row; \<open>dateValue === todayDay\<close> holds only for the
  string \<open>todayDay\<close> itself.
\<close>

definition nextDate :: "string \<Rightarrow> cell \<Rightarrow> string option \<Rightarrow> string option" where
  "nextDate todayDay dateValue currentDate =
     (if hasDate dateValue
      then (if dateValue = Str todayDay then Some todayDay else None)
      else currentDate)"

text \<open>
  The \<open>forEach\<close> over the rows of a table whose date column is \<open>dateCol\<close>: a row is
  collected when \<open>currentDate === todayDay\<close> after the update.  Every collected row is
  kept with its index in the grid.
\<close>

fun daySegment :: "nat \<Rightarrow> string \<Rightarrow> string option \<Rightarrow> nat \<Rightarrow> grid \<Rightarrow> (nat \<times> row) list" where
  "daySegment dateCol todayDay currentDate index [] = []"
| "daySegment dateCol todayDay currentDate index (r # rest) =
     (let currentDate' = nextDate todayDay (cell_at r dateCol) currentDate
      in (if currentDate' = Some todayDay then [(index, r)] else [])
         @ daySegment dateCol todayDay currentDate' (Suc index) rest)"

text \<open>\<open>targetDate.getDate().toString().padStart(2, '0')\<close>, from the day of the month.\<close>

definition todayDayOf :: "nat \<Rightarrow> string" where
  "todayDayOf day = padStart2 (show_nat day)"

section \<open>CARGO\<close>

record cargo_entry =
  awb :: cell
  kg :: cell
  sistem :: cell
  tunai :: cell
  tfMandiriK :: cell
  tfMandiriL :: cell
  tfBca :: cell
  dfod :: cell
  packing :: cell

definition cargoEntry :: "row \<Rightarrow> cargo_entry" where
  "cargoEntry r =
     \<lparr> awb = cell_at r 3, kg = cell_at r 7, sistem = cell_at r 10, tunai = cell_at r 8,
       tfMandiriK = cell_at r 10, tfMandiriL = cell_at r 11, tfBca = cell_at r 12,
       dfod = cell_at r 14, packing = cell_at r 15 \<rparr>"

definition cargoSegment :: "string \<Rightarrow> grid \<Rightarrow> (nat \<times> row) list" where
  "cargoSegment todayDay cargoData = daySegment 1 todayDay None 0 cargoData"

definition todayCargoRows :: "string \<Rightarrow> grid \<Rightarrow> cargo_entry list" where
  "todayCargoRows todayDay cargoData = map (cargoEntry \<circ> snd) (cargoSegment todayDay cargoData)"

text \<open>The running totals of the second loop.\<close>

record cargo_acc =
  totalAWB_acc :: nat
  totalKg_acc :: jsnum
  totalOnlineKg_acc :: jsnum
  onlineAWBs_acc :: "string list"
  totalTunai_acc :: jsnum
  totalTfMandiri_acc :: jsnum
  totalTfBca_acc :: jsnum
  totalDfod_acc :: jsnum
  totalPacking_acc :: jsnum

definition cargoInit :: cargo_acc where
  "cargoInit =
     \<lparr> totalAWB_acc = 0, totalKg_acc = 0, totalOnlineKg_acc = 0, onlineAWBs_acc = [],
       totalTunai_acc = 0, totalTfMandiri_acc = 0, totalTfBca_acc = 0, totalDfod_acc = 0,
       totalPacking_acc = 0 \<rparr>"

text \<open>\<open>awb && awb.toString().trim() !== '' && awb.toString().toLowerCase() !== 'total'\<close>.\<close>

definition countedAwb :: "cell \<Rightarrow> bool" where
  "countedAwb a = (js_truthy a \<and> trim (toStr a) \<noteq> [] \<and> toLowerCase (toStr a) \<noteq> ''total'')"

definition isOnlineAwb :: "cell \<Rightarrow> bool" where
  "isOnlineAwb a =
     (let awbString = toLowerCase (toStr a)
      in includesStr awbString ''tiktok'' \<or> includesStr awbString ''shopee''
         \<or> includesStr awbString ''api'')"

text \<open>\<open>awb.toString().match(/^\d{10,}$/)\<close>.\<close>

definition isNumericAwb :: "cell \<Rightarrow> bool" where
  "isNumericAwb a = (10 \<le> length (toStr a) \<and> list_all is_digit (toStr a))"

definition cargoStep :: "cargo_acc \<Rightarrow> cargo_entry \<Rightarrow> cargo_acc" where
  "cargoStep a e =
     (if countedAwb (awb e) then
        (let kgValue = numberOf (kg e);
             tunaiValue = numberOf (tunai e);
             tfMandiriKValue = numberOf (tfMandiriK e);
             tfMandiriLValue = numberOf (tfMandiriL e);
             tfBcaValue = numberOf (tfBca e);
             dfodValue = numberOf (dfod e);
             packingValue = numberOf (packing e);
             a1 = a \<lparr> totalTunai_acc := totalTunai_acc a + tunaiValue,
                      totalTfMandiri_acc := totalTfMandiri_acc a + (tfMandiriKValue + tfMandiriLValue),
                      totalTfBca_acc := totalTfBca_acc a + tfBcaValue,
                      totalDfod_acc := totalDfod_acc a + dfodValue,
                      totalPacking_acc := totalPacking_acc a + packingValue \<rparr>
         in if isOnlineAwb (awb e) then
              a1 \<lparr> onlineAWBs_acc := onlineAWBs_acc a1 @ [toStr (awb e)],
                   totalOnlineKg_acc := totalOnlineKg_acc a1 + kgValue \<rparr>
            else if isNumericAwb (awb e) then
              a1 \<lparr> totalAWB_acc := totalAWB_acc a1 + 1,
                   totalKg_acc := totalKg_acc a1 + kgValue \<rparr>
            else a1)
      else a)"

record cargo_totals =
  totalAWB :: nat
  totalAWBOnline :: string
  totalTonase :: jsnum
  totalTonaseOnline :: jsnum
  totalTunai :: jsnum
  totalTfMandiri :: jsnum
  totalTfBca :: jsnum
  totalDfod :: jsnum
  totalPacking :: jsnum

definition cargoResult :: "cargo_acc \<Rightarrow> cargo_totals" where
  "cargoResult a =
     \<lparr> totalAWB = totalAWB_acc a,
       totalAWBOnline = (if length (onlineAWBs_acc a) > 0 then join '' '' (onlineAWBs_acc a) else ''TBD''),
       totalTonase = totalKg_acc a,
       totalTonaseOnline = totalOnlineKg_acc a,
       totalTunai = totalTunai_acc a,
       totalTfMandiri = totalTfMandiri_acc a,
       totalTfBca = totalTfBca_acc a,
       totalDfod = totalDfod_acc a,
       totalPacking = totalPacking_acc a \<rparr>"

definition cargoTotals :: "string \<Rightarrow> grid \<Rightarrow> cargo_totals" where
  "cargoTotals todayDay cargoData =
     cargoResult (foldl cargoStep cargoInit (todayCargoRows todayDay cargoData))"

text \<open>The object returned by the \<open>catch\<close> block.\<close>

definition cargoDefault :: cargo_totals where
  "cargoDefault =
     \<lparr> totalAWB = 0, totalAWBOnline = ''TBD'', totalTonase = 0, totalTonaseOnline = 0,
       totalTunai = 0, totalTfMandiri = 0, totalTfBca = 0, totalDfod = 0, totalPacking = 0 \<rparr>"

text \<open>
  \<open>getCargoData\<close>: \<open>searchFetch\<close> is the outcome of reading \<open>B13:B300\<close>, \<open>tableFetch n\<close>
  that of reading \<open>A13:Rn\<close>; \<open>day\<close> is \<open>targetDate.getDate()\<close>.
\<close>

definition getCargoData :: "fetched \<Rightarrow> (nat \<Rightarrow> fetched) \<Rightarrow> nat \<Rightarrow> cargo_totals" where
  "getCargoData searchFetch tableFetch day =
     (case searchFetch of
        Inl err \<Rightarrow> cargoDefault
      | Inr searchData \<Rightarrow>
          (case tableFetch (findEndRow 300 searchData) of
             Inl err \<Rightarrow> cargoDefault
           | Inr cargoData \<Rightarrow> cargoTotals (todayDayOf day) cargoData))"

section \<open>EXPRESS\<close>

record express_entry =
  tunai_e :: cell
  mandiri_e :: cell
  bca_e :: cell
  packing_e :: cell

definition expressEntry :: "row \<Rightarrow> express_entry" where
  "expressEntry r =
     \<lparr> tunai_e = cell_at r 7, mandiri_e = cell_at r 9, bca_e = cell_at r 11,
       packing_e = cell_at r 13 \<rparr>"

text \<open>The inner loop looking for "TOTAL" in any column of the row.\<close>

definition hasTotal :: "row \<Rightarrow> bool" where
  "hasTotal r =
     list_ex (\<lambda>cellValue. js_truthy cellValue \<and> includesStr (toLowerCase (toStr cellValue)) ''total'') r"

text \<open>\<open>tunai || mandiri || bca || packing\<close>.\<close>

definition hasPayment :: "express_entry \<Rightarrow> bool" where
  "hasPayment e =
     (js_truthy (tunai_e e) \<or> js_truthy (mandiri_e e) \<or> js_truthy (bca_e e) \<or> js_truthy (packing_e e))"

definition expressSegment :: "string \<Rightarrow> grid \<Rightarrow> (nat \<times> row) list" where
  "expressSegment todayDay expressData = daySegment 0 todayDay None 0 expressData"

text \<open>
  Within the day's section a row with "TOTAL" is left by \<open>return\<close>; the others are pushed
  when one of the four payment cells is truthy.  The date of a skipped row has already
  updated \<open>expressCurrentDate\<close>.
\<close>

definition todayExpressRows :: "string \<Rightarrow> grid \<Rightarrow> express_entry list" where
  "todayExpressRows todayDay expressData =
     filter hasPayment
       (map expressEntry (filter (\<lambda>r. \<not> hasTotal r) (map snd (expressSegment todayDay expressData))))"

record express_totals =
  totalAWBExpress :: nat
  totalTunaiExpress :: jsnum
  totalTfMandiriExpress :: jsnum
  totalTfBcaExpress :: jsnum
  totalPackingExpress :: jsnum

text \<open>The second loop adds into four independent running totals, each starting at 0.\<close>

definition expressTotals :: "string \<Rightarrow> grid \<Rightarrow> express_totals" where
  "expressTotals todayDay expressData =
     (let rows = todayExpressRows todayDay expressData
      in \<lparr> totalAWBExpress = length rows,
           totalTunaiExpress = foldl (\<lambda>t e. t + numberOf (tunai_e e)) 0 rows,
           totalTfMandiriExpress = foldl (\<lambda>t e. t + numberOf (mandiri_e e)) 0 rows,
           totalTfBcaExpress = foldl (\<lambda>t e. t + numberOf (bca_e e)) 0 rows,
           totalPackingExpress = foldl (\<lambda>t e. t + numberOf (packing_e e)) 0 rows \<rparr>)"

definition expressDefault :: express_totals where
  "expressDefault =
     \<lparr> totalAWBExpress = 0, totalTunaiExpress = 0, totalTfMandiriExpress = 0,
       totalTfBcaExpress = 0, totalPackingExpress = 0 \<rparr>"

text \<open>
  \<open>getExpressData\<close>: \<open>searchFetch\<close> is the outcome of reading \<open>B13:B300\<close>, \<open>tableFetch n\<close>
  that of reading \<open>AD9:AYn\<close>.
\<close>

definition getExpressData :: "fetched \<Rightarrow> (nat \<Rightarrow> fetched) \<Rightarrow> nat \<Rightarrow> express_totals" where
  "getExpressData searchFetch tableFetch day =
     (case searchFetch of
        Inl err \<Rightarrow> expressDefault
      | Inr searchData \<Rightarrow>
          (case tableFetch (findEndRow 300 searchData) of
             Inl err \<Rightarrow> expressDefault
           | Inr expressData \<Rightarrow> expressTotals (todayDayOf day) expressData))"

section \<open>PENGELUARAN\<close>

record pengeluaran_totals =
  totalPengeluaran :: jsnum
  itemsWithoutPrice :: "string list"

text \<open>
  \<open>dateValue && (dateValue.toString() === targetDay || dateValue.toString() === targetDayPadded)\<close>.
\<close>

definition dateMatches :: "cell \<Rightarrow> nat \<Rightarrow> bool" where
  "dateMatches dateValue day =
     (js_truthy dateValue
      \<and> (toStr dateValue = show_nat day \<or> toStr dateValue = padStart2 (show_nat day)))"

definition notBlank :: "cell \<Rightarrow> bool" where
  "notBlank x = (js_truthy x \<and> trim (toStr x) \<noteq> [])"

definition pengeluaranStep :: "nat \<Rightarrow> pengeluaran_totals \<Rightarrow> row \<Rightarrow> pengeluaran_totals" where
  "pengeluaranStep day acc r =
     (let dateValue = cell_at r 0;
          description = cell_at r 2;
          amount = cell_at r 11
      in if dateMatches dateValue day then
           if notBlank description then
             if notBlank amount then
               acc \<lparr> totalPengeluaran :=
                       totalPengeluaran acc + parseFloat (stripNonNumeric (toStr amount)) \<rparr>
             else acc \<lparr> itemsWithoutPrice := itemsWithoutPrice acc @ [trim (toStr description)] \<rparr>
           else acc
         else acc)"

definition pengeluaranDefault :: pengeluaran_totals where
  "pengeluaranDefault = \<lparr> totalPengeluaran = 0, itemsWithoutPrice = [] \<rparr>"

definition pengeluaranTotals :: "nat \<Rightarrow> grid \<Rightarrow> pengeluaran_totals" where
  "pengeluaranTotals day pengeluaranData =
     foldl (pengeluaranStep day) \<lparr> totalPengeluaran = 0, itemsWithoutPrice = [] \<rparr> pengeluaranData"

text \<open>\<open>getPengeluaranData\<close>: \<open>tableFetch\<close> is the outcome of reading \<open>B226:S248\<close>.\<close>

definition getPengeluaranData :: "fetched \<Rightarrow> nat \<Rightarrow> pengeluaran_totals" where
  "getPengeluaranData tableFetch day =
     (case tableFetch of
        Inl err \<Rightarrow> pengeluaranDefault
      | Inr pengeluaranData \<Rightarrow> pengeluaranTotals day pengeluaranData)"

section \<open>The daily report\<close>

record employee =
  emp_name :: string
  inTime :: cell
  outTime :: cell
  isPresent :: bool

record attendee =
  att_name :: string
  att_inTime :: cell
  att_outTime :: cell

text \<open>\<open>t || '-'\<close>.\<close>

definition orDash :: "cell \<Rightarrow> cell" where
  "orDash t = (if js_truthy t then t else Str ''-'')"

text \<open>
  What the service reads off \<open>targetDate\<close>: the day of the month, the ISO date, the
  long display form and the name of the month's sheet.
\<close>

record target_date =
  getDate :: nat
  isoDate :: string
  displayDate :: string
  sheetName :: string

text \<open>The outcome of every read the daily report makes, one per call site.\<close>

record day_fetches =
  attendanceFetch :: "error + employee list"
  cargoSearch :: fetched
  cargoTable :: "nat \<Rightarrow> fetched"
  expressSearch :: fetched
  expressTable :: "nat \<Rightarrow> fetched"
  pengeluaranTable :: fetched

record daily_report =
  date :: string
  dateDisplay :: string
  sheet :: string
  attendance :: "attendee list"
  cargo :: cargo_totals
  express :: express_totals
  pengeluaran :: pengeluaran_totals

definition attendanceOf :: "error + employee list \<Rightarrow> attendee list" where
  "attendanceOf res =
     (case res of
        Inl err \<Rightarrow> []
      | Inr emps \<Rightarrow>
          map (\<lambda>emp. \<lparr> att_name = emp_name emp, att_inTime = orDash (inTime emp),
                        att_outTime = orDash (outTime emp) \<rparr>)
              (filter isPresent emps))"

definition generateDailyReport :: "day_fetches \<Rightarrow> target_date \<Rightarrow> daily_report" where
  "generateDailyReport f targetDate =
     \<lparr> date = isoDate targetDate,
       dateDisplay = displayDate targetDate,
       sheet = sheetName targetDate,
       attendance = attendanceOf (attendanceFetch f),
       cargo = getCargoData (cargoSearch f) (cargoTable f) (getDate targetDate),
       express = getExpressData (expressSearch f) (expressTable f) (getDate targetDate),
       pengeluaran = getPengeluaranData (pengeluaranTable f) (getDate targetDate) \<rparr>"

section \<open>Aggregation over a range of days\<close>

text \<open>
  \<open>aggregateReports\<close> adds, for every report, \<open>field || 0\<close> into the running totals.  The
  sub-objects \<open>cargo\<close>, \<open>express\<close> and \<open>pengeluaran\<close> of a daily report are always
  objects, so the tests \<open>if (report.cargo)\<close> and the like always pass.  The counts are
  natural numbers, for which \<open>n || 0\<close> is \<open>n\<close>.  The average attendance, a text made by
  \<open>toFixed(1)\<close>, is left out.
\<close>

record attendance_agg =
  uniqueEmployees :: "string list"
  totalAttendanceDays :: nat

record cargo_agg =
  totalAWB_agg :: nat
  totalAWBOnline_agg :: "string list"
  totalTonase_agg :: jsnum
  totalTonaseOnline_agg :: jsnum
  totalTunai_agg :: jsnum
  totalTfMandiri_agg :: jsnum
  totalTfBca_agg :: jsnum
  totalDfod_agg :: jsnum
  totalPacking_agg :: jsnum

record express_agg =
  totalAWBExpress_agg :: nat
  totalTunaiExpress_agg :: jsnum
  totalTfMandiriExpress_agg :: jsnum
  totalTfBcaExpress_agg :: jsnum
  totalPackingExpress_agg :: jsnum

record pengeluaran_agg =
  totalPengeluaran_agg :: jsnum
  allItemsWithoutPrice :: "string list"

record aggregated =
  attendance_of :: attendance_agg
  cargo_of :: cargo_agg
  express_of :: express_agg
  pengeluaran_of :: pengeluaran_agg

definition attendanceAggStep :: "attendance_agg \<Rightarrow> daily_report \<Rightarrow> attendance_agg" where
  "attendanceAggStep a report =
     (if length (attendance report) > 0 then
        \<lparr> uniqueEmployees = foldl (\<lambda>names emp. List.insert (att_name emp) names)
                                   (uniqueEmployees a) (attendance report),
          totalAttendanceDays = totalAttendanceDays a + length (attendance report) \<rparr>
      else a)"

definition cargoAggStep :: "cargo_agg \<Rightarrow> daily_report \<Rightarrow> cargo_agg" where
  "cargoAggStep a report =
     \<lparr> totalAWB_agg = totalAWB_agg a + totalAWB (cargo report),
       totalAWBOnline_agg =
         (if totalAWBOnline (cargo report) \<noteq> [] \<and> totalAWBOnline (cargo report) \<noteq> ''TBD''
          then totalAWBOnline_agg a @ [date report @ '': '' @ totalAWBOnline (cargo report)]
          else totalAWBOnline_agg a),
       totalTonase_agg = totalTonase_agg a + orZero (totalTonase (cargo report)),
       totalTonaseOnline_agg = totalTonaseOnline_agg a + orZero (totalTonaseOnline (cargo report)),
       totalTunai_agg = totalTunai_agg a + orZero (totalTunai (cargo report)),
       totalTfMandiri_agg = totalTfMandiri_agg a + orZero (totalTfMandiri (cargo report)),
       totalTfBca_agg = totalTfBca_agg a + orZero (totalTfBca (cargo report)),
       totalDfod_agg = totalDfod_agg a + orZero (totalDfod (cargo report)),
       totalPacking_agg = totalPacking_agg a + orZero (totalPacking (cargo report)) \<rparr>"

definition expressAggStep :: "express_agg \<Rightarrow> daily_report \<Rightarrow> express_agg" where
  "expressAggStep a report =
     \<lparr> totalAWBExpress_agg = totalAWBExpress_agg a + totalAWBExpress (express report),
       totalTunaiExpress_agg = totalTunaiExpress_agg a + orZero (totalTunaiExpress (express report)),
       totalTfMandiriExpress_agg =
         totalTfMandiriExpress_agg a + orZero (totalTfMandiriExpress (express report)),
       totalTfBcaExpress_agg = totalTfBcaExpress_agg a + orZero (totalTfBcaExpress (express report)),
       totalPackingExpress_agg =
         totalPackingExpress_agg a + orZero (totalPackingExpress (express report)) \<rparr>"

definition pengeluaranAggStep :: "pengeluaran_agg \<Rightarrow> daily_report \<Rightarrow> pengeluaran_agg" where
  "pengeluaranAggStep a report =
     \<lparr> totalPengeluaran_agg =
         totalPengeluaran_agg a + orZero (totalPengeluaran (pengeluaran report)),
       allItemsWithoutPrice =
         (if length (itemsWithoutPrice (pengeluaran report)) > 0
          then allItemsWithoutPrice a
               @ [date report @ '': '' @ join '', '' (itemsWithoutPrice (pengeluaran report))]
          else allItemsWithoutPrice a) \<rparr>"

definition aggregateReports :: "daily_report list \<Rightarrow> aggregated" where
  "aggregateReports reports =
     (let att = foldl attendanceAggStep \<lparr> uniqueEmployees = [], totalAttendanceDays = 0 \<rparr> reports;
          cg = foldl cargoAggStep
                 \<lparr> totalAWB_agg = 0, totalAWBOnline_agg = [], totalTonase_agg = 0,
                   totalTonaseOnline_agg = 0, totalTunai_agg = 0, totalTfMandiri_agg = 0,
                   totalTfBca_agg = 0, totalDfod_agg = 0, totalPacking_agg = 0 \<rparr> reports;
          ex = foldl expressAggStep
                 \<lparr> totalAWBExpress_agg = 0, totalTunaiExpress_agg = 0,
                   totalTfMandiriExpress_agg = 0, totalTfBcaExpress_agg = 0,
                   totalPackingExpress_agg = 0 \<rparr> reports;
          pg = foldl pengeluaranAggStep
                 \<lparr> totalPengeluaran_agg = 0, allItemsWithoutPrice = [] \<rparr> reports
      in \<lparr> attendance_of = att,
           cargo_of = cg \<lparr> totalAWBOnline_agg :=
                            (if length (totalAWBOnline_agg cg) > 0 then totalAWBOnline_agg cg
                             else [''No online AWBs found'']) \<rparr>,
           express_of = ex,
           pengeluaran_of = pg \<rparr>)"

section \<open>Malformed cells in the cargo table\<close>

text \<open>
  C1.  The claim: a payment or weight cell of the day's segment whose text does not parse
  as a number counts as 0, so no total of the cargo aggregate is ever \<open>NaN\<close>.  The code
  falls back to 0 only for a falsy cell: a filled cell without any digit, such as
  \<open>abc\<close>, is stripped to the empty text, which \<open>parseFloat\<close> reads as \<open>NaN\<close>, and the
  total it is added to stays \<open>NaN\<close>.  Here the grid has the single row dated \<open>05\<close> with
  AWB \<open>1234567890\<close>, weight \<open>2.5\<close> and cash cell \<open>abc\<close>, and the target day is 5.
\<close>

theorem getCargoData_unparseable_tunai_NaN:
  "totalTunai
     (getCargoData (Inr [])
        (\<lambda>endRow. Inr [[Undefined, Str ''05'', Undefined, Str ''1234567890'', Undefined,
                         Undefined, Undefined, Str ''2.5'', Str ''abc'']])
        5) = NaN"
  by code_simp

section \<open>Classification of cargo rows\<close>

lemma starts_with_set: "starts_with s p \<Longrightarrow> set p \<subseteq> set s"
  by (induction s p rule: starts_with.induct) auto

lemma includesStr_set: "includesStr s sub \<Longrightarrow> set sub \<subseteq> set s"
proof (induction s)
  case Nil
  then show ?case by simp
next
  case (Cons c cs)
  then show ?case using starts_with_set[of "c # cs" sub] by auto
qed

lemma lower_digits: "\<forall>c\<in>set ''0123456789''. lowerChar c = c"
  by code_simp

lemma lower_digit: "is_digit c \<Longrightarrow> lowerChar c = c"
  using lower_digits by (simp only: is_digit_def)

lemma online_not_numeric: "isOnlineAwb a \<Longrightarrow> \<not> isNumericAwb a"
proof
  assume on: "isOnlineAwb a" and nu: "isNumericAwb a"
  from nu have dig: "\<forall>c\<in>set (toStr a). is_digit c"
    by (simp add: isNumericAwb_def list_all_iff)
  hence "toLowerCase (toStr a) = toStr a"
    by (simp add: toLowerCase_def lower_digit map_idI)
  with on have "includesStr (toStr a) ''tiktok'' \<or> includesStr (toStr a) ''shopee''
      \<or> includesStr (toStr a) ''api''"
    by (simp add: isOnlineAwb_def Let_def)
  then have "CHR ''t'' \<in> set (toStr a) \<or> CHR ''s'' \<in> set (toStr a) \<or> CHR ''a'' \<in> set (toStr a)"
    using includesStr_set[of "toStr a" "''tiktok''"] includesStr_set[of "toStr a" "''shopee''"]
      includesStr_set[of "toStr a" "''api''"] by auto
  moreover have "\<not> is_digit CHR ''t''" "\<not> is_digit CHR ''s''" "\<not> is_digit CHR ''a''"
    by (simp_all add: is_digit_def)
  ultimately show False using dig by blast
qed

lemma cargoStep_kg:
  "totalKg_acc (cargoStep a e) =
     totalKg_acc a + (if countedAwb (awb e) \<and> \<not> isOnlineAwb (awb e) \<and> isNumericAwb (awb e)
                      then numberOf (kg e) else 0)"
  by (simp add: cargoStep_def Let_def)

lemma cargoStep_onlineKg:
  "totalOnlineKg_acc (cargoStep a e) =
     totalOnlineKg_acc a + (if countedAwb (awb e) \<and> isOnlineAwb (awb e) then numberOf (kg e) else 0)"
  by (simp add: cargoStep_def Let_def)

lemma cargoStep_awb:
  "totalAWB_acc (cargoStep a e) =
     totalAWB_acc a + (if countedAwb (awb e) \<and> \<not> isOnlineAwb (awb e) \<and> isNumericAwb (awb e)
                       then 1 else 0)"
  by (simp add: cargoStep_def Let_def)

lemma foldl_cargo_kg:
  "totalKg_acc (foldl cargoStep a es) =
     totalKg_acc a + sum_list (map (\<lambda>e. numberOf (kg e))
        (filter (\<lambda>e. countedAwb (awb e) \<and> \<not> isOnlineAwb (awb e) \<and> isNumericAwb (awb e)) es))"
proof (induction es arbitrary: a)
  case Nil
  show ?case by simp
next
  case (Cons e es)
  show ?case
    unfolding foldl_Cons Cons.IH cargoStep_kg by (simp add: add.assoc)
qed

lemma foldl_cargo_onlineKg:
  "totalOnlineKg_acc (foldl cargoStep a es) =
     totalOnlineKg_acc a + sum_list (map (\<lambda>e. numberOf (kg e))
        (filter (\<lambda>e. countedAwb (awb e) \<and> isOnlineAwb (awb e)) es))"
proof (induction es arbitrary: a)
  case Nil
  show ?case by simp
next
  case (Cons e es)
  show ?case
    unfolding foldl_Cons Cons.IH cargoStep_onlineKg by (simp add: add.assoc)
qed

lemma foldl_cargo_awb:
  "totalAWB_acc (foldl cargoStep a es) =
     totalAWB_acc a
     + length (filter (\<lambda>e. countedAwb (awb e) \<and> \<not> isOnlineAwb (awb e) \<and> isNumericAwb (awb e)) es)"
proof (induction es arbitrary: a)
  case Nil
  show ?case by simp
next
  case (Cons e es)
  show ?case
    unfolding foldl_Cons Cons.IH cargoStep_awb by simp
qed

text \<open>
  C3.  A collected row whose AWB is filled and is not the text \<open>total\<close> is in exactly one of
  three classes: online (the lower-cased AWB contains \<open>tiktok\<close>, \<open>shopee\<close> or \<open>api\<close>),
  regular (the AWB is a run of at least 10 digits) or ignored.  Its weight goes to the
  online weight total in the first class, to the regular weight total (with the regular
  count raised by one) in the second, and to neither in the third; never to both.  Over the
  whole day the two weight totals are the sums over these two disjoint classes of rows.
\<close>

theorem cargo_classification_exclusive:
  assumes "countedAwb (awb e)"
  shows
    "((isOnlineAwb (awb e) \<and> \<not> isNumericAwb (awb e)
        \<and> totalOnlineKg_acc (cargoStep a e) = totalOnlineKg_acc a + numberOf (kg e)
        \<and> totalKg_acc (cargoStep a e) = totalKg_acc a
        \<and> totalAWB_acc (cargoStep a e) = totalAWB_acc a)
      \<or> (\<not> isOnlineAwb (awb e) \<and> isNumericAwb (awb e)
        \<and> totalKg_acc (cargoStep a e) = totalKg_acc a + numberOf (kg e)
        \<and> totalOnlineKg_acc (cargoStep a e) = totalOnlineKg_acc a
        \<and> totalAWB_acc (cargoStep a e) = totalAWB_acc a + 1)
      \<or> (\<not> isOnlineAwb (awb e) \<and> \<not> isNumericAwb (awb e)
        \<and> totalKg_acc (cargoStep a e) = totalKg_acc a
        \<and> totalOnlineKg_acc (cargoStep a e) = totalOnlineKg_acc a
        \<and> totalAWB_acc (cargoStep a e) = totalAWB_acc a))
     \<and> totalTonase (cargoTotals todayDay cargoData) =
         sum_list (map (\<lambda>e. numberOf (kg e))
           (filter (\<lambda>e. countedAwb (awb e) \<and> \<not> isOnlineAwb (awb e) \<and> isNumericAwb (awb e))
              (todayCargoRows todayDay cargoData)))
     \<and> totalTonaseOnline (cargoTotals todayDay cargoData) =
         sum_list (map (\<lambda>e. numberOf (kg e))
           (filter (\<lambda>e. countedAwb (awb e) \<and> isOnlineAwb (awb e))
              (todayCargoRows todayDay cargoData)))"
proof -
  have zero: "\<And>x::jsnum. x + 0 = x" by simp
  have step: "(isOnlineAwb (awb e) \<and> \<not> isNumericAwb (awb e)
        \<and> totalOnlineKg_acc (cargoStep a e) = totalOnlineKg_acc a + numberOf (kg e)
        \<and> totalKg_acc (cargoStep a e) = totalKg_acc a
        \<and> totalAWB_acc (cargoStep a e) = totalAWB_acc a)
      \<or> (\<not> isOnlineAwb (awb e) \<and> isNumericAwb (awb e)
        \<and> totalKg_acc (cargoStep a e) = totalKg_acc a + numberOf (kg e)
        \<and> totalOnlineKg_acc (cargoStep a e) = totalOnlineKg_acc a
        \<and> totalAWB_acc (cargoStep a e) = totalAWB_acc a + 1)
      \<or> (\<not> isOnlineAwb (awb e) \<and> \<not> isNumericAwb (awb e)
        \<and> totalKg_acc (cargoStep a e) = totalKg_acc a
        \<and> totalOnlineKg_acc (cargoStep a e) = totalOnlineKg_acc a
        \<and> totalAWB_acc (cargoStep a e) = totalAWB_acc a)"
    unfolding cargoStep_kg cargoStep_onlineKg cargoStep_awb
    using assms online_not_numeric[of "awb e"] by (cases "isOnlineAwb (awb e)") auto
  have t1: "totalTonase (cargoTotals todayDay cargoData) =
         sum_list (map (\<lambda>e. numberOf (kg e))
           (filter (\<lambda>e. countedAwb (awb e) \<and> \<not> isOnlineAwb (awb e) \<and> isNumericAwb (awb e))
              (todayCargoRows todayDay cargoData)))"
    by (simp add: cargoTotals_def cargoResult_def foldl_cargo_kg cargoInit_def)
  have t2: "totalTonaseOnline (cargoTotals todayDay cargoData) =
         sum_list (map (\<lambda>e. numberOf (kg e))
           (filter (\<lambda>e. countedAwb (awb e) \<and> isOnlineAwb (awb e))
              (todayCargoRows todayDay cargoData)))"
    by (simp add: cargoTotals_def cargoResult_def foldl_cargo_onlineKg cargoInit_def)
  from step t1 t2 show ?thesis by blast
qed


theorem cargo_classification_exclusive_witness:
  "countedAwb (awb (cargoEntry [Undefined, Str ''05'', Undefined, Str ''Shopee-882'', Undefined,
                                Undefined, Undefined, Str ''4'']))
   \<and> totalOnlineKg_acc (cargoStep cargoInit
         (cargoEntry [Undefined, Str ''05'', Undefined, Str ''Shopee-882'', Undefined,
                      Undefined, Undefined, Str ''4''])) = Fin 4
   \<and> totalKg_acc (cargoStep cargoInit
         (cargoEntry [Undefined, Str ''05'', Undefined, Str ''Shopee-882'', Undefined,
                      Undefined, Undefined, Str ''4''])) = Fin 0"
proof -
  define e where "e = cargoEntry [Undefined, Str ''05'', Undefined, Str ''Shopee-882'', Undefined,
                      Undefined, Undefined, Str ''4'']"
  have h: "countedAwb (awb e)" unfolding e_def by code_simp
  have on: "isOnlineAwb (awb e)" unfolding e_def by code_simp
  have k: "numberOf (kg e) = Fin 4" unfolding e_def by code_simp
  have i: "totalOnlineKg_acc cargoInit = Fin 0" "totalKg_acc cargoInit = Fin 0"
    by (simp_all add: cargoInit_def zero_jsnum_def)
  from cargo_classification_exclusive[OF h, of cargoInit] on k i h
  show ?thesis unfolding e_def by auto
qed

section \<open>The section boundary\<close>

lemma starts_with_iff: "starts_with s p \<longleftrightarrow> (\<exists>post. s = p @ post)"
  by (induction s p rule: starts_with.induct) auto

lemma includesStr_iff: "includesStr s sub \<longleftrightarrow> (\<exists>pre post. s = pre @ sub @ post)"
proof (induction s)
  case Nil
  show ?case by auto
next
  case (Cons c cs)
  have "(\<exists>pre post. c # cs = pre @ sub @ post)
        \<longleftrightarrow> (\<exists>post. c # cs = sub @ post) \<or> (\<exists>pre post. cs = pre @ sub @ post)"
  proof
    assume "\<exists>pre post. c # cs = pre @ sub @ post"
    then obtain pre post where eq: "c # cs = pre @ sub @ post" by blast
    show "(\<exists>post. c # cs = sub @ post) \<or> (\<exists>pre post. cs = pre @ sub @ post)"
    proof (cases pre)
      case Nil
      with eq show ?thesis by auto
    next
      case (Cons p pre')
      with eq have "cs = pre' @ sub @ post" by simp
      then show ?thesis by blast
    qed
  next
    assume "(\<exists>post. c # cs = sub @ post) \<or> (\<exists>pre post. cs = pre @ sub @ post)"
    then show "\<exists>pre post. c # cs = pre @ sub @ post"
    proof
      assume "\<exists>post. c # cs = sub @ post"
      then obtain post where "c # cs = [] @ sub @ post" by auto
      then show ?thesis by blast
    next
      assume "\<exists>pre post. cs = pre @ sub @ post"
      then obtain pre post where "c # cs = (c # pre) @ sub @ post" by auto
      then show ?thesis by blast
    qed
  qed
  with Cons show ?case by (simp add: starts_with_iff)
qed

lemma includesStr_map_iff:
  "includesStr (map f s) m \<longleftrightarrow> (\<exists>pre mid post. s = pre @ mid @ post \<and> map f mid = m)"
proof
  assume "includesStr (map f s) m"
  then obtain a b where "map f s = a @ (m @ b)" unfolding includesStr_iff by auto
  then obtain pre rest where s1: "s = pre @ rest" and r: "map f rest = m @ b"
    by (metis map_eq_append_conv)
  from r obtain mid post where "rest = mid @ post" and "map f mid = m"
    by (metis map_eq_append_conv)
  with s1 show "\<exists>pre mid post. s = pre @ mid @ post \<and> map f mid = m" by blast
next
  assume "\<exists>pre mid post. s = pre @ mid @ post \<and> map f mid = m"
  then obtain pre mid post where "s = pre @ mid @ post" and "map f mid = m" by blast
  then have "map f s = map f pre @ m @ map f post" by simp
  then show "includesStr (map f s) m" unfolding includesStr_iff by blast
qed

lemma scanEndRow_found:
  "i < length rows \<Longrightarrow> isPengeluaranLabel (cell_at (rows ! i) 0)
   \<Longrightarrow> \<forall>j<i. \<not> isPengeluaranLabel (cell_at (rows ! j) 0)
   \<Longrightarrow> scanEndRow fb k rows = 13 + (k + i) - 1"
proof (induction rows arbitrary: k i)
  case Nil
  then show ?case by simp
next
  case (Cons r rest)
  show ?case
  proof (cases i)
    case 0
    with Cons.prems show ?thesis by simp
  next
    case (Suc i')
    from Cons.prems(3) Suc have nothead: "\<not> isPengeluaranLabel (cell_at r 0)" by auto
    have "\<forall>j<i'. \<not> isPengeluaranLabel (cell_at (rest ! j) 0)"
      using Cons.prems(3) Suc by auto
    with Cons.IH[of i' "Suc k"] Cons.prems(1,2) Suc
    have "scanEndRow fb (Suc k) rest = 13 + (Suc k + i') - 1" by simp
    with nothead Suc show ?thesis by simp
  qed
qed

lemma scanEndRow_none:
  "\<forall>j<length rows. \<not> isPengeluaranLabel (cell_at (rows ! j) 0) \<Longrightarrow> scanEndRow fb k rows = fb"
proof (induction rows arbitrary: k)
  case Nil
  show ?case by simp
next
  case (Cons r rest)
  from Cons.prems have "\<not> isPengeluaranLabel (cell_at r 0)" by auto
  moreover from Cons.prems have "\<forall>j<length rest. \<not> isPengeluaranLabel (cell_at (rest ! j) 0)"
    by auto
  ultimately show ?case using Cons.IH by simp
qed

text \<open>
  C5.  The scan of the label column returns the sheet row just before the first row whose
  label contains PENGELUARAN in any mix of upper and lower case (index \<open>i\<close> of the searched
  column is sheet row \<open>13 + i\<close>); when no searched row holds the marker it returns the
  fallback it started with (300 in the service, 200 in the command-line report).
\<close>

theorem findEndRow_boundary:
  "(i < length searchData \<and> isPengeluaranLabel (cell_at (searchData ! i) 0)
      \<and> (\<forall>j<i. \<not> isPengeluaranLabel (cell_at (searchData ! j) 0))
      \<longrightarrow> findEndRow fallback searchData = (13 + i) - 1)
   \<and> ((\<forall>j<length searchData. \<not> isPengeluaranLabel (cell_at (searchData ! j) 0))
      \<longrightarrow> findEndRow fallback searchData = fallback)
   \<and> (isPengeluaranLabel (Str label)
      \<longleftrightarrow> (\<exists>pre mid post. label = pre @ mid @ post \<and> toUpperCase mid = ''PENGELUARAN''))"
proof -
  have a: "i < length searchData \<and> isPengeluaranLabel (cell_at (searchData ! i) 0)
      \<and> (\<forall>j<i. \<not> isPengeluaranLabel (cell_at (searchData ! j) 0))
      \<longrightarrow> findEndRow fallback searchData = (13 + i) - 1"
    using scanEndRow_found[of i searchData fallback 0] by (simp add: findEndRow_def)
  have b: "(\<forall>j<length searchData. \<not> isPengeluaranLabel (cell_at (searchData ! j) 0))
      \<longrightarrow> findEndRow fallback searchData = fallback"
    using scanEndRow_none[of searchData fallback 0] by (simp add: findEndRow_def)
  have c: "isPengeluaranLabel (Str label)
      \<longleftrightarrow> (\<exists>pre mid post. label = pre @ mid @ post \<and> toUpperCase mid = ''PENGELUARAN'')"
  proof -
    have ne: "includesStr (map upperChar label) ''PENGELUARAN'' \<Longrightarrow> label \<noteq> []"
      by auto
    have "isPengeluaranLabel (Str label) \<longleftrightarrow> includesStr (map upperChar label) ''PENGELUARAN''"
      using ne by (auto simp: isPengeluaranLabel_def toUpperCase_def)
    also have "\<dots> \<longleftrightarrow> (\<exists>pre mid post. label = pre @ mid @ post \<and> map upperChar mid = ''PENGELUARAN'')"
      by (rule includesStr_map_iff)
    finally show ?thesis unfolding toUpperCase_def .
  qed
  from a b c show ?thesis by blast
qed

theorem findEndRow_boundary_witness:
  "findEndRow 300 [[Str ''01''], [], [Str ''Pengeluaran Harian''], [Str ''PENGELUARAN'']] = 14
   \<and> findEndRow 300 [[Str ''01''], [Str ''02'']] = 300
   \<and> isPengeluaranLabel (Str ''Pengeluaran Harian'')"
proof -
  define g where "g = [[Str ''01''], [], [Str ''Pengeluaran Harian''], [Str ''PENGELUARAN'']]"
  have h1: "2 < length g \<and> isPengeluaranLabel (cell_at (g ! 2) 0)
      \<and> (\<forall>j<2. \<not> isPengeluaranLabel (cell_at (g ! j) 0))"
    unfolding g_def by code_simp
  have h2: "\<forall>j<length [[Str ''01''], [Str ''02'']]. \<not> isPengeluaranLabel (cell_at ([[Str ''01''], [Str ''02'']] ! j) 0)"
    by code_simp
  have h3: "\<exists>pre mid post. ''Pengeluaran Harian'' = pre @ mid @ post \<and> toUpperCase mid = ''PENGELUARAN''"
  proof -
    have "''Pengeluaran Harian'' = [] @ ''Pengeluaran'' @ '' Harian''" by simp
    moreover have "toUpperCase ''Pengeluaran'' = ''PENGELUARAN''" by code_simp
    ultimately show ?thesis by blast
  qed
  from findEndRow_boundary[of 2 g 300 "''Pengeluaran Harian''"] h1 h3
  have r1: "findEndRow 300 g = 14" and r3: "isPengeluaranLabel (Str ''Pengeluaran Harian'')" by auto
  from findEndRow_boundary[of 0 "[[Str ''01''], [Str ''02'']]" 300 "''x''"] h2
  have r2: "findEndRow 300 [[Str ''01''], [Str ''02'']] = 300" by blast
  from r1 r2 r3 show ?thesis unfolding g_def by simp
qed

section \<open>Day segments of the cargo table\<close>

lemma daySegment_mem:
  "(n, r) \<in> set (daySegment col d cur idx rows) \<longleftrightarrow>
     (\<exists>i<length rows. n = idx + i \<and> r = rows ! i
        \<and> foldl (\<lambda>c x. nextDate d (cell_at x col) c) cur (take (Suc i) rows) = Some d)"
proof (induction rows arbitrary: cur idx)
  case Nil
  show ?case by simp
next
  case (Cons r0 rest)
  let ?c = "nextDate d (cell_at r0 col) cur"
  have split: "\<And>P. (\<exists>i<length (r0 # rest). P i) \<longleftrightarrow> P 0 \<or> (\<exists>i<length rest. P (Suc i))"
    by (auto simp: less_Suc_eq_0_disj)
  have "(n, r) \<in> set (daySegment col d cur idx (r0 # rest)) \<longleftrightarrow>
          (?c = Some d \<and> n = idx \<and> r = r0) \<or> (n, r) \<in> set (daySegment col d ?c (Suc idx) rest)"
    by (auto simp: Let_def)
  also have "\<dots> \<longleftrightarrow> (?c = Some d \<and> n = idx \<and> r = r0)
       \<or> (\<exists>i<length rest. n = Suc idx + i \<and> r = rest ! i
            \<and> foldl (\<lambda>c x. nextDate d (cell_at x col) c) ?c (take (Suc i) rest) = Some d)"
    by (simp only: Cons.IH)
  also have "\<dots> \<longleftrightarrow> (\<exists>i<length (r0 # rest). n = idx + i \<and> r = (r0 # rest) ! i
        \<and> foldl (\<lambda>c x. nextDate d (cell_at x col) c) cur (take (Suc i) (r0 # rest)) = Some d)"
    unfolding split by auto
  finally show ?case .
qed

lemma activeDay_iff:
  "foldl (\<lambda>c x. nextDate d (cell_at x col) c) cur xs = Some d \<longleftrightarrow>
     (\<exists>j<length xs. hasDate (cell_at (xs ! j) col) \<and> cell_at (xs ! j) col = Str d
         \<and> (\<forall>k. j < k \<and> k < length xs \<longrightarrow> \<not> hasDate (cell_at (xs ! k) col)))
     \<or> (cur = Some d \<and> (\<forall>k<length xs. \<not> hasDate (cell_at (xs ! k) col)))"
proof (induction xs rule: rev_induct)
  case Nil
  show ?case by simp
next
  case (snoc x xs)
  let ?L = "\<lambda>ys k. hasDate (cell_at (ys ! k) col)"
  let ?st = "foldl (\<lambda>c x. nextDate d (cell_at x col) c) cur xs"
  have nth_old: "\<And>k. k < length xs \<Longrightarrow> (xs @ [x]) ! k = xs ! k"
    by (simp add: nth_append)
  have nth_new: "(xs @ [x]) ! length xs = x" by simp
  show ?case
  proof (cases "hasDate (cell_at x col)")
    case True
    have lhs: "foldl (\<lambda>c x. nextDate d (cell_at x col) c) cur (xs @ [x]) = Some d
                \<longleftrightarrow> cell_at x col = Str d"
      using True by (simp add: nextDate_def)
    have rhs: "((\<exists>j<length (xs @ [x]). ?L (xs @ [x]) j \<and> cell_at ((xs @ [x]) ! j) col = Str d
         \<and> (\<forall>k. j < k \<and> k < length (xs @ [x]) \<longrightarrow> \<not> ?L (xs @ [x]) k))
        \<or> (cur = Some d \<and> (\<forall>k<length (xs @ [x]). \<not> ?L (xs @ [x]) k)))
       \<longleftrightarrow> cell_at x col = Str d"
    proof
      assume "(\<exists>j<length (xs @ [x]). ?L (xs @ [x]) j \<and> cell_at ((xs @ [x]) ! j) col = Str d
         \<and> (\<forall>k. j < k \<and> k < length (xs @ [x]) \<longrightarrow> \<not> ?L (xs @ [x]) k))
        \<or> (cur = Some d \<and> (\<forall>k<length (xs @ [x]). \<not> ?L (xs @ [x]) k))"
      then show "cell_at x col = Str d"
      proof
        assume "\<exists>j<length (xs @ [x]). ?L (xs @ [x]) j \<and> cell_at ((xs @ [x]) ! j) col = Str d
         \<and> (\<forall>k. j < k \<and> k < length (xs @ [x]) \<longrightarrow> \<not> ?L (xs @ [x]) k)"
        then obtain j where j: "j < length (xs @ [x])"
          and cj: "cell_at ((xs @ [x]) ! j) col = Str d"
          and after: "\<forall>k. j < k \<and> k < length (xs @ [x]) \<longrightarrow> \<not> ?L (xs @ [x]) k" by blast
        have "j = length xs"
        proof (rule ccontr)
          assume "j \<noteq> length xs"
          with j have "j < length xs" by simp
          then have "j < length xs \<and> length xs < length (xs @ [x])" by simp
          with after have "\<not> ?L (xs @ [x]) (length xs)" by blast
          with True show False by simp
        qed
        with cj show ?thesis by simp
      next
        assume "cur = Some d \<and> (\<forall>k<length (xs @ [x]). \<not> ?L (xs @ [x]) k)"
        moreover have "length xs < length (xs @ [x])" by simp
        ultimately have "\<not> ?L (xs @ [x]) (length xs)" by blast
        with True show ?thesis by simp
      qed
    next
      assume eq: "cell_at x col = Str d"
      have "length xs < length (xs @ [x])" by simp
      moreover have "?L (xs @ [x]) (length xs)" using True by simp
      moreover have "cell_at ((xs @ [x]) ! length xs) col = Str d" using eq by simp
      moreover have "\<forall>k. length xs < k \<and> k < length (xs @ [x]) \<longrightarrow> \<not> ?L (xs @ [x]) k" by auto
      ultimately show "(\<exists>j<length (xs @ [x]). ?L (xs @ [x]) j \<and> cell_at ((xs @ [x]) ! j) col = Str d
         \<and> (\<forall>k. j < k \<and> k < length (xs @ [x]) \<longrightarrow> \<not> ?L (xs @ [x]) k))
        \<or> (cur = Some d \<and> (\<forall>k<length (xs @ [x]). \<not> ?L (xs @ [x]) k))" by blast
    qed
    from lhs rhs show ?thesis by simp
  next
    case False
    have lhs: "foldl (\<lambda>c x. nextDate d (cell_at x col) c) cur (xs @ [x]) = ?st"
      using False by (simp add: nextDate_def)
    have all_ext: "\<And>P. (\<forall>k<length (xs @ [x]). P k) \<longleftrightarrow> (\<forall>k<length xs. P k) \<and> P (length xs)"
      by (auto simp: less_Suc_eq)
    have r2: "(\<forall>k<length (xs @ [x]). \<not> ?L (xs @ [x]) k) \<longleftrightarrow> (\<forall>k<length xs. \<not> ?L xs k)"
      unfolding all_ext using False by (simp add: nth_append)
    have r1: "(\<exists>j<length (xs @ [x]). ?L (xs @ [x]) j \<and> cell_at ((xs @ [x]) ! j) col = Str d
         \<and> (\<forall>k. j < k \<and> k < length (xs @ [x]) \<longrightarrow> \<not> ?L (xs @ [x]) k))
       \<longleftrightarrow> (\<exists>j<length xs. ?L xs j \<and> cell_at (xs ! j) col = Str d
         \<and> (\<forall>k. j < k \<and> k < length xs \<longrightarrow> \<not> ?L xs k))"
    proof
      assume "\<exists>j<length (xs @ [x]). ?L (xs @ [x]) j \<and> cell_at ((xs @ [x]) ! j) col = Str d
         \<and> (\<forall>k. j < k \<and> k < length (xs @ [x]) \<longrightarrow> \<not> ?L (xs @ [x]) k)"
      then obtain j where j: "j < length (xs @ [x])" and lj: "?L (xs @ [x]) j"
          and cj: "cell_at ((xs @ [x]) ! j) col = Str d"
          and after: "\<forall>k. j < k \<and> k < length (xs @ [x]) \<longrightarrow> \<not> ?L (xs @ [x]) k" by blast
      from lj False have "j \<noteq> length xs" by auto
      with j have jl: "j < length xs" by simp
      have "\<forall>k. j < k \<and> k < length xs \<longrightarrow> \<not> ?L xs k"
      proof (intro allI impI)
        fix k assume k: "j < k \<and> k < length xs"
        then have "\<not> ?L (xs @ [x]) k" using after by simp
        with k show "\<not> ?L xs k" by (simp add: nth_append)
      qed
      moreover from lj jl have "?L xs j" by (simp add: nth_append)
      moreover from cj jl have "cell_at (xs ! j) col = Str d" by (simp add: nth_append)
      ultimately show "\<exists>j<length xs. ?L xs j \<and> cell_at (xs ! j) col = Str d
         \<and> (\<forall>k. j < k \<and> k < length xs \<longrightarrow> \<not> ?L xs k)" using jl by blast
    next
      assume "\<exists>j<length xs. ?L xs j \<and> cell_at (xs ! j) col = Str d
         \<and> (\<forall>k. j < k \<and> k < length xs \<longrightarrow> \<not> ?L xs k)"
      then obtain j where jl: "j < length xs" and lj: "?L xs j"
          and cj: "cell_at (xs ! j) col = Str d"
          and after: "\<forall>k. j < k \<and> k < length xs \<longrightarrow> \<not> ?L xs k" by blast
      have "\<forall>k. j < k \<and> k < length (xs @ [x]) \<longrightarrow> \<not> ?L (xs @ [x]) k"
      proof (intro allI impI)
        fix k assume k: "j < k \<and> k < length (xs @ [x])"
        show "\<not> ?L (xs @ [x]) k"
        proof (cases "k = length xs")
          case True
          with False show ?thesis by simp
        next
          case False
          with k have "k < length xs" by simp
          with k after show ?thesis by (simp add: nth_append)
        qed
      qed
      moreover from lj jl have "?L (xs @ [x]) j" by (simp add: nth_append)
      moreover from cj jl have "cell_at ((xs @ [x]) ! j) col = Str d" by (simp add: nth_append)
      moreover from jl have "j < length (xs @ [x])" by simp
      ultimately show "\<exists>j<length (xs @ [x]). ?L (xs @ [x]) j \<and> cell_at ((xs @ [x]) ! j) col = Str d
         \<and> (\<forall>k. j < k \<and> k < length (xs @ [x]) \<longrightarrow> \<not> ?L (xs @ [x]) k)" by blast
    qed
    show ?thesis unfolding lhs snoc.IH r1 r2 ..
  qed
qed


lemma daySegment_iff:
  "(i, r) \<in> set (daySegment col d None 0 g) \<longleftrightarrow>
     i < length g \<and> r = g ! i
     \<and> (\<exists>j\<le>i. hasDate (cell_at (g ! j) col) \<and> cell_at (g ! j) col = Str d
           \<and> (\<forall>k. j < k \<and> k \<le> i \<longrightarrow> \<not> hasDate (cell_at (g ! k) col)))"
proof (cases "i < length g")
  case False
  then show ?thesis by (auto simp: daySegment_mem)
next
  case True
  let ?xs = "take (Suc i) g"
  have len: "length ?xs = Suc i" using True by simp
  have nth: "\<And>k. k \<le> i \<Longrightarrow> ?xs ! k = g ! k" by simp
  have "(i, r) \<in> set (daySegment col d None 0 g) \<longleftrightarrow>
          r = g ! i \<and> foldl (\<lambda>c x. nextDate d (cell_at x col) c) None ?xs = Some d"
    using True by (auto simp: daySegment_mem)
  also have "foldl (\<lambda>c x. nextDate d (cell_at x col) c) None ?xs = Some d \<longleftrightarrow>
     (\<exists>j<Suc i. hasDate (cell_at (?xs ! j) col) \<and> cell_at (?xs ! j) col = Str d
         \<and> (\<forall>k. j < k \<and> k < Suc i \<longrightarrow> \<not> hasDate (cell_at (?xs ! k) col)))"
    unfolding activeDay_iff len by simp
  also have "\<dots> \<longleftrightarrow> (\<exists>j\<le>i. hasDate (cell_at (g ! j) col) \<and> cell_at (g ! j) col = Str d
           \<and> (\<forall>k. j < k \<and> k \<le> i \<longrightarrow> \<not> hasDate (cell_at (g ! k) col)))"
    using nth by (metis (no_types, lifting) less_Suc_eq_le)
  finally show ?thesis using True by simp
qed

text \<open>
  C2.  For two different target days the row indices collected from the cargo grid are
  disjoint.  A row without a date leaves \<open>currentDate\<close> as it is, and a row is collected
  exactly when the nearest row at or above it that has a date holds the target day's text.
\<close>

theorem cargoSegment_disjoint:
  "(d1 \<noteq> d2 \<longrightarrow> fst ` set (cargoSegment d1 g) \<inter> fst ` set (cargoSegment d2 g) = {})
   \<and> (\<not> hasDate dateValue \<longrightarrow> nextDate d dateValue currentDate = currentDate)
   \<and> ((i, r) \<in> set (cargoSegment d g) \<longleftrightarrow>
        i < length g \<and> r = g ! i
        \<and> (\<exists>j\<le>i. hasDate (cell_at (g ! j) 1) \<and> cell_at (g ! j) 1 = Str d
              \<and> (\<forall>k. j < k \<and> k \<le> i \<longrightarrow> \<not> hasDate (cell_at (g ! k) 1))))"
proof -
  have disj: "fst ` set (cargoSegment d1 g) \<inter> fst ` set (cargoSegment d2 g) = {}" if ne: "d1 \<noteq> d2"
  proof (rule ccontr)
    assume "fst ` set (cargoSegment d1 g) \<inter> fst ` set (cargoSegment d2 g) \<noteq> {}"
    then obtain n r1 r2 where m1: "(n, r1) \<in> set (daySegment 1 d1 None 0 g)"
      and m2: "(n, r2) \<in> set (daySegment 1 d2 None 0 g)"
      unfolding cargoSegment_def by force
    from m1 obtain j1 where j1: "j1 \<le> n" "hasDate (cell_at (g ! j1) 1)" "cell_at (g ! j1) 1 = Str d1"
      and a1: "\<forall>k. j1 < k \<and> k \<le> n \<longrightarrow> \<not> hasDate (cell_at (g ! k) 1)"
      unfolding daySegment_iff by blast
    from m2 obtain j2 where j2: "j2 \<le> n" "hasDate (cell_at (g ! j2) 1)" "cell_at (g ! j2) 1 = Str d2"
      and a2: "\<forall>k. j2 < k \<and> k \<le> n \<longrightarrow> \<not> hasDate (cell_at (g ! k) 1)"
      unfolding daySegment_iff by blast
    have "\<not> j1 < j2" using a1 j2 by blast
    moreover have "\<not> j2 < j1" using a2 j1 by blast
    ultimately have "j1 = j2" by simp
    with j1(3) j2(3) ne show False by simp
  qed
  have keep: "\<not> hasDate dateValue \<longrightarrow> nextDate d dateValue currentDate = currentDate"
    by (simp add: nextDate_def)
  have mem: "(i, r) \<in> set (cargoSegment d g) \<longleftrightarrow>
        i < length g \<and> r = g ! i
        \<and> (\<exists>j\<le>i. hasDate (cell_at (g ! j) 1) \<and> cell_at (g ! j) 1 = Str d
              \<and> (\<forall>k. j < k \<and> k \<le> i \<longrightarrow> \<not> hasDate (cell_at (g ! k) 1)))"
    unfolding cargoSegment_def by (rule daySegment_iff)
  from disj keep mem show ?thesis by blast
qed

theorem cargoSegment_disjoint_witness:
  "''05'' \<noteq> ''06''
   \<and> fst ` set (cargoSegment ''05'' [[Undefined, Str ''05''], [], [Undefined, Str ''06'']])
       \<inter> fst ` set (cargoSegment ''06'' [[Undefined, Str ''05''], [], [Undefined, Str ''06'']]) = {}
   \<and> \<not> hasDate Undefined \<and> nextDate ''05'' Undefined (Some ''05'') = Some ''05''
   \<and> (1, []) \<in> set (cargoSegment ''05'' [[Undefined, Str ''05''], [], [Undefined, Str ''06'']])"
proof -
  define g where "g = [[Undefined, Str ''05''], [], [Undefined, Str ''06'']]"
  have ne: "''05'' \<noteq> ''06''" by simp
  have nd: "\<not> hasDate Undefined" by (simp add: hasDate_def)
  have ex: "(1::nat) < length g \<and> [] = g ! 1
        \<and> (\<exists>j\<le>1. hasDate (cell_at (g ! j) 1) \<and> cell_at (g ! j) 1 = Str ''05''
              \<and> (\<forall>k. j < k \<and> k \<le> 1 \<longrightarrow> \<not> hasDate (cell_at (g ! k) 1)))"
  proof -
    have "hasDate (cell_at (g ! 0) 1)" "cell_at (g ! 0) 1 = Str ''05''" "\<not> hasDate (cell_at (g ! 1) 1)"
      unfolding g_def by code_simp+
    moreover have "\<And>k::nat. 0 < k \<and> k \<le> 1 \<Longrightarrow> k = 1" by simp
    ultimately have "hasDate (cell_at (g ! 0) 1) \<and> cell_at (g ! 0) 1 = Str ''05''
              \<and> (\<forall>k. 0 < k \<and> k \<le> 1 \<longrightarrow> \<not> hasDate (cell_at (g ! k) 1))" by metis
    then show ?thesis unfolding g_def by auto
  qed
  from cargoSegment_disjoint[of "''05''" "''06''" g Undefined "''05''" "Some ''05''" 1 "[]"] ne nd ex
  show ?thesis unfolding g_def by blast
qed

section \<open>A day whose label occurs twice\<close>

lemma daySegment_append:
  "daySegment col d cur idx (xs @ ys) =
     daySegment col d cur idx xs
     @ daySegment col d (foldl (\<lambda>c x. nextDate d (cell_at x col) c) cur xs) (idx + length xs) ys"
  by (induction xs arbitrary: cur idx) (simp_all add: Let_def)

lemma continuation_rows:
  assumes "\<forall>x\<in>set conts. \<not> hasDate (cell_at x col)"
  shows "map snd (daySegment col d cur idx conts) = (if cur = Some d then conts else [])"
    and "foldl (\<lambda>c x. nextDate d (cell_at x col) c) cur conts = cur"
  using assms by (induction conts arbitrary: idx) (simp_all add: Let_def nextDate_def)

lemma dated_block:
  assumes "\<forall>x\<in>set conts. \<not> hasDate (cell_at x col)"
  shows "map snd (daySegment col d cur idx (r # conts)) =
           (if nextDate d (cell_at r col) cur = Some d then r # conts else [])"
    and "foldl (\<lambda>c x. nextDate d (cell_at x col) c) cur (r # conts) = nextDate d (cell_at r col) cur"
  using continuation_rows[OF assms] by (simp_all add: Let_def)

lemma digit_chars: "\<forall>k\<in>set [0..<10]. is_digit (digit_char k)"
  by code_simp

lemma digits_not_space: "\<forall>c\<in>set ''0123456789''. \<not> is_space c"
  by code_simp

lemma digit_not_space: "is_digit c \<Longrightarrow> \<not> is_space c"
  using digits_not_space unfolding is_digit_def by blast

lemma show_nat_digits: "c \<in> set (show_nat n) \<Longrightarrow> is_digit c"
proof (induction n arbitrary: c rule: show_nat.induct)
  case (1 n)
  have dc: "\<And>k. k < 10 \<Longrightarrow> is_digit (digit_char k)" using digit_chars by simp
  show ?case
  proof (cases "n < 10")
    case True
    with "1.prems" show ?thesis by (simp add: show_nat.simps[of n] dc)
  next
    case False
    with "1.prems" have "c \<in> set (show_nat (n div 10)) \<or> c = digit_char (n mod 10)"
      by (auto simp add: show_nat.simps[of n])
    then show ?thesis using "1.IH"[OF False] dc[of "n mod 10"] by auto
  qed
qed

lemma show_nat_ne: "show_nat n \<noteq> []"
  by (simp add: show_nat.simps[of n])

lemma trim_ne: "c \<in> set s \<Longrightarrow> \<not> is_space c \<Longrightarrow> trim s \<noteq> []"
proof -
  assume c: "c \<in> set s" and ns: "\<not> is_space c"
  then have ne: "dropWhile is_space s \<noteq> []" by (auto simp: dropWhile_eq_Nil_conv)
  then have "\<not> is_space (hd (dropWhile is_space s))" by (rule hd_dropWhile)
  moreover have "hd (dropWhile is_space s) \<in> set (rev (dropWhile is_space s))" using ne by simp
  ultimately have "dropWhile is_space (rev (dropWhile is_space s)) \<noteq> []"
    by (auto simp: dropWhile_eq_Nil_conv simp del: set_rev)
  then show ?thesis by (simp add: trim_def)
qed

lemma hasDate_digits: "c \<in> set s \<Longrightarrow> is_digit c \<Longrightarrow> hasDate (Str s)"
  using trim_ne[of c s] digit_not_space[of c] by (auto simp: hasDate_def)

lemma hasDate_todayDay: "hasDate (Str (todayDayOf day))"
proof -
  obtain c where c: "c \<in> set (show_nat day)" using show_nat_ne[of day] by (cases "show_nat day") auto
  then have "c \<in> set (todayDayOf day)" by (simp add: todayDayOf_def padStart2_def)
  with c show ?thesis using hasDate_digits show_nat_digits by blast
qed

text \<open>
  C9.  The claim: when the target day's label occurs, a row with another day's label
  follows, and the target label occurs again, only the rows of the first occurrence are
  collected.  In the code the second label sets \<open>currentDate\<close> to the target day again:
  of the rows dated 05, 06, 05 the scan for day 05 collects rows 0 and 2, and both
  parcels are counted.
\<close>

theorem cargoSegment_reopen_counterexample:
  "map fst (cargoSegment ''05''
      [[Undefined, Str ''05'', Undefined, Str ''1111111111''],
       [Undefined, Str ''06'', Undefined, Str ''2222222222''],
       [Undefined, Str ''05'', Undefined, Str ''3333333333'']]) = [0, 2]
   \<and> totalAWB (cargoTotals ''05''
      [[Undefined, Str ''05'', Undefined, Str ''1111111111''],
       [Undefined, Str ''06'', Undefined, Str ''2222222222''],
       [Undefined, Str ''05'', Undefined, Str ''3333333333'']]) = 2"
  by code_simp

text \<open>
  C9, as the code has it.  Take a grid made of a block labelled with the target day, a block
  labelled with another day and a second block labelled with the target day, each block
  being its labelled row followed by rows without a date.  The collected segment is the
  first block followed by the second target block; only the rows of the other day's block
  are left out.
\<close>

theorem cargoSegment_reopens:
  assumes "cell_at a 1 = Str (todayDayOf day)"
    and "\<forall>x\<in>set contA. \<not> hasDate (cell_at x 1)"
    and "hasDate (cell_at b 1)" and "cell_at b 1 \<noteq> Str (todayDayOf day)"
    and "\<forall>x\<in>set contB. \<not> hasDate (cell_at x 1)"
    and "cell_at c 1 = Str (todayDayOf day)"
    and "\<forall>x\<in>set contC. \<not> hasDate (cell_at x 1)"
  shows "map snd (cargoSegment (todayDayOf day) ((a # contA) @ (b # contB) @ (c # contC)))
           = (a # contA) @ (c # contC)"
proof -
  let ?d = "todayDayOf day"
  have openA: "nextDate ?d (cell_at a 1) None = Some ?d"
    using assms(1) hasDate_todayDay[of day] by (simp add: nextDate_def)
  have closeB: "nextDate ?d (cell_at b 1) (Some ?d) = None"
    using assms(3,4) by (simp add: nextDate_def)
  have openC: "nextDate ?d (cell_at c 1) None = Some ?d"
    using assms(6) hasDate_todayDay[of day] by (simp add: nextDate_def)
  show ?thesis
    unfolding cargoSegment_def daySegment_append map_append
      dated_block[OF assms(2)] dated_block[OF assms(5)] dated_block[OF assms(7)]
      openA closeB openC
    by simp
qed

theorem cargoSegment_reopens_witness:
  "map snd (cargoSegment (todayDayOf 5)
      (([Undefined, Str ''05''] # [[Undefined, Str '''', Str ''x'']])
       @ ([Undefined, Str ''06''] # [])
       @ ([Undefined, Str ''05'', Str ''y''] # [[]])))
     = ([Undefined, Str ''05''] # [[Undefined, Str '''', Str ''x'']])
       @ ([Undefined, Str ''05'', Str ''y''] # [[]])"
proof -
  have h1: "cell_at [Undefined, Str ''05''] 1 = Str (todayDayOf 5)" by code_simp
  have h2: "\<forall>x\<in>set [[Undefined, Str '''', Str ''x'']]. \<not> hasDate (cell_at x 1)" by code_simp
  have h3: "hasDate (cell_at [Undefined, Str ''06''] 1)" by code_simp
  have h4: "cell_at [Undefined, Str ''06''] 1 \<noteq> Str (todayDayOf 5)" by code_simp
  have h5: "\<forall>x\<in>set ([]::row list). \<not> hasDate (cell_at x 1)" by simp
  have h6: "cell_at [Undefined, Str ''05'', Str ''y''] 1 = Str (todayDayOf 5)" by code_simp
  have h7: "\<forall>x\<in>set [[]]. \<not> hasDate (cell_at x 1)" by code_simp
  show ?thesis by (rule cargoSegment_reopens[OF h1 h2 h3 h4 h5 h6 h7])
qed

section \<open>Strict matching of the padded day\<close>

lemma show_int_not_space: "c \<in> set (show_int n) \<Longrightarrow> \<not> is_space c"
proof -
  assume c: "c \<in> set (show_int n)"
  have minus: "\<not> is_space CHR ''-''" by code_simp
  from c have "c = CHR ''-'' \<or> (\<exists>m. c \<in> set (show_nat m))"
    by (auto simp: show_int_def split: if_splits)
  then show ?thesis using minus show_nat_digits digit_not_space by blast
qed

lemma hasDate_Num: "n \<noteq> 0 \<Longrightarrow> hasDate (Num n)"
proof -
  assume n: "n \<noteq> 0"
  have "show_int n \<noteq> []" by (simp add: show_int_def show_nat_ne)
  then obtain c where c: "c \<in> set (show_int n)" by (cases "show_int n") auto
  have "trim (show_int n) \<noteq> []" by (rule trim_ne[OF c show_int_not_space[OF c]])
  with n show ?thesis by (simp add: hasDate_def)
qed

lemma length_show_nat_small: "n < 10 \<Longrightarrow> length (show_nat n) = 1"
  by (simp add: show_nat.simps[of n])

lemma length_todayDay: "2 \<le> length (todayDayOf day)"
  by (simp add: todayDayOf_def padStart2_def)

lemma excluded_block:
  assumes "hasDate (cell_at r col)" and "cell_at r col \<noteq> Str d"
    and "\<forall>x\<in>set conts. \<not> hasDate (cell_at x col)"
  shows "map snd (daySegment col d None 0 (pre @ (r # conts) @ post)) =
           map snd (daySegment col d None 0 pre) @ map snd (daySegment col d None 0 post)"
proof -
  have closed: "\<And>cur. nextDate d (cell_at r col) cur = None"
    using assms(1,2) by (simp add: nextDate_def)
  have idx: "\<And>cur i j. map snd (daySegment col d cur i post) = map snd (daySegment col d cur j post)"
  proof -
    fix cur i j
    show "map snd (daySegment col d cur i post) = map snd (daySegment col d cur j post)"
      by (induction post arbitrary: cur i j) (auto simp: Let_def)
  qed
  have "map snd (daySegment col d None 0 (pre @ (r # conts) @ post)) =
          map snd (daySegment col d None 0 pre)
          @ map snd (daySegment col d None (0 + length pre + length (r # conts)) post)"
    unfolding daySegment_append map_append dated_block[OF assms(3)] closed by simp
  also have "map snd (daySegment col d None (0 + length pre + length (r # conts)) post)
               = map snd (daySegment col d None 0 post)"
    by (rule idx)
  finally show ?thesis .
qed

text \<open>
  C10.  In the cargo and the express scan a date cell opens the day's segment only when it
  is the very string \<open>todayDay\<close>, the day of the month padded to two digits.  Any other
  date cell that is not blank sets \<open>currentDate\<close> to \<open>null\<close>, and the block it heads (that row
  and the undated rows after it) adds no row to the segment.  Such cells are: the unpadded
  text of a day below 10, the padded text with white space around it, and a number other
  than 0.  The expense table accepts the unpadded and the padded text alike.
\<close>

theorem segment_opens_only_on_padded_day:
  "(hasDate dateValue \<and> dateValue \<noteq> Str (todayDayOf day)
      \<longrightarrow> nextDate (todayDayOf day) dateValue currentDate = None)
   \<and> (nextDate (todayDayOf day) (Str (todayDayOf day)) currentDate = Some (todayDayOf day))
   \<and> (hasDate (cell_at r 1) \<and> cell_at r 1 \<noteq> Str (todayDayOf day)
        \<and> (\<forall>x\<in>set conts. \<not> hasDate (cell_at x 1))
      \<longrightarrow> map snd (cargoSegment (todayDayOf day) (pre @ (r # conts) @ post))
            = map snd (cargoSegment (todayDayOf day) pre)
              @ map snd (cargoSegment (todayDayOf day) post))
   \<and> (hasDate (cell_at r 0) \<and> cell_at r 0 \<noteq> Str (todayDayOf day)
        \<and> (\<forall>x\<in>set conts. \<not> hasDate (cell_at x 0))
      \<longrightarrow> map snd (expressSegment (todayDayOf day) (pre @ (r # conts) @ post))
            = map snd (expressSegment (todayDayOf day) pre)
              @ map snd (expressSegment (todayDayOf day) post))
   \<and> (1 \<le> day \<and> day \<le> 9
      \<longrightarrow> hasDate (Str (show_nat day)) \<and> Str (show_nat day) \<noteq> Str (todayDayOf day))
   \<and> (ws @ ws' \<noteq> []
      \<longrightarrow> hasDate (Str (ws @ todayDayOf day @ ws'))
          \<and> Str (ws @ todayDayOf day @ ws') \<noteq> Str (todayDayOf day))
   \<and> (n \<noteq> 0 \<longrightarrow> hasDate (Num n) \<and> Num n \<noteq> Str (todayDayOf day))
   \<and> dateMatches (Str (show_nat day)) day
   \<and> dateMatches (Str (todayDayOf day)) day"
proof -
  let ?t = "todayDayOf day"
  have p1: "hasDate dateValue \<and> dateValue \<noteq> Str ?t \<longrightarrow> nextDate ?t dateValue currentDate = None"
    by (simp add: nextDate_def)
  have p2: "nextDate ?t (Str ?t) currentDate = Some ?t"
    using hasDate_todayDay[of day] by (simp add: nextDate_def)
  have p3: "hasDate (cell_at r 1) \<and> cell_at r 1 \<noteq> Str ?t \<and> (\<forall>x\<in>set conts. \<not> hasDate (cell_at x 1))
      \<longrightarrow> map snd (cargoSegment ?t (pre @ (r # conts) @ post))
            = map snd (cargoSegment ?t pre) @ map snd (cargoSegment ?t post)"
    unfolding cargoSegment_def using excluded_block[of r 1 ?t conts pre post] by blast
  have p4: "hasDate (cell_at r 0) \<and> cell_at r 0 \<noteq> Str ?t \<and> (\<forall>x\<in>set conts. \<not> hasDate (cell_at x 0))
      \<longrightarrow> map snd (expressSegment ?t (pre @ (r # conts) @ post))
            = map snd (expressSegment ?t pre) @ map snd (expressSegment ?t post)"
    unfolding expressSegment_def using excluded_block[of r 0 ?t conts pre post] by blast
  have p5: "1 \<le> day \<and> day \<le> 9 \<longrightarrow> hasDate (Str (show_nat day)) \<and> Str (show_nat day) \<noteq> Str ?t"
  proof
    assume d: "1 \<le> day \<and> day \<le> 9"
    obtain c where c: "c \<in> set (show_nat day)"
      using show_nat_ne[of day] by (cases "show_nat day") auto
    then have h: "hasDate (Str (show_nat day))" using hasDate_digits show_nat_digits by blast
    from d have "length (show_nat day) = 1" by (simp add: length_show_nat_small)
    with length_todayDay[of day] have "show_nat day \<noteq> ?t" by auto
    with h show "hasDate (Str (show_nat day)) \<and> Str (show_nat day) \<noteq> Str ?t" by simp
  qed
  have p6: "ws @ ws' \<noteq> [] \<longrightarrow> hasDate (Str (ws @ ?t @ ws')) \<and> Str (ws @ ?t @ ws') \<noteq> Str ?t"
  proof
    assume w: "ws @ ws' \<noteq> []"
    obtain c where c: "c \<in> set (show_nat day)"
      using show_nat_ne[of day] by (cases "show_nat day") auto
    then have "c \<in> set (ws @ ?t @ ws')" by (simp add: todayDayOf_def padStart2_def)
    with c have h: "hasDate (Str (ws @ ?t @ ws'))" using hasDate_digits show_nat_digits by blast
    from w have "length (ws @ ?t @ ws') \<noteq> length ?t" by auto
    then have "ws @ ?t @ ws' \<noteq> ?t" by metis
    with h show "hasDate (Str (ws @ ?t @ ws')) \<and> Str (ws @ ?t @ ws') \<noteq> Str ?t" by simp
  qed
  have p7: "n \<noteq> 0 \<longrightarrow> hasDate (Num n) \<and> Num n \<noteq> Str ?t"
    using hasDate_Num[of n] by simp
  have p8: "dateMatches (Str (show_nat day)) day"
    by (simp add: dateMatches_def show_nat_ne)
  have "?t \<noteq> []" using length_todayDay[of day] by auto
  then have p9: "dateMatches (Str ?t) day"
    by (simp add: dateMatches_def todayDayOf_def)
  from p1 p2 p3 p4 p5 p6 p7 p8 p9 show ?thesis by blast
qed

theorem segment_opens_only_on_padded_day_witness:
  "nextDate ''05'' (Str ''5'') (Some ''05'') = None
   \<and> nextDate ''05'' (Str '' 05 '') (Some ''05'') = None
   \<and> nextDate ''05'' (Num 5) (Some ''05'') = None
   \<and> map snd (cargoSegment ''05'' ([[Undefined, Str ''05'']] @ ([Undefined, Str ''5''] # [[]]) @ []))
        = [[Undefined, Str ''05'']]
   \<and> map snd (expressSegment ''05'' ([] @ ([Num 5] # [[]]) @ [[Str ''05'']])) = [[Str ''05'']]
   \<and> dateMatches (Str ''5'') 5 \<and> dateMatches (Str ''05'') 5"
proof -
  have t: "todayDayOf 5 = ''05''" by code_simp
  have s: "show_nat 5 = ''5''" by code_simp
  have d: "(1::nat) \<le> 5 \<and> (5::nat) \<le> 9" by simp
  have w: "'' '' @ '' '' \<noteq> []" by simp
  have n: "(5::int) \<noteq> 0" by simp
  note T = segment_opens_only_on_padded_day[where day = 5, unfolded t s]
  have a1: "nextDate ''05'' (Str ''5'') (Some ''05'') = None"
    using T[of "Str ''5''" "Some ''05''" "[]" "[]" "[]" "[]" "[]" "[]" 5] d by blast
  have a2: "nextDate ''05'' (Str '' 05 '') (Some ''05'') = None"
    using T[of "Str '' 05 ''" "Some ''05''" "[]" "[]" "[]" "[]" "'' ''" "'' ''" 5] w by simp
  have a3: "nextDate ''05'' (Num 5) (Some ''05'') = None"
    using T[of "Num 5" "Some ''05''" "[]" "[]" "[]" "[]" "[]" "[]" 5] n by blast
  have c1: "hasDate (cell_at [Undefined, Str ''5''] 1) \<and> cell_at [Undefined, Str ''5''] 1 \<noteq> Str ''05''
        \<and> (\<forall>x\<in>set [[]]. \<not> hasDate (cell_at x 1))" by code_simp
  have c2: "map snd (cargoSegment ''05'' [[Undefined, Str ''05'']]) = [[Undefined, Str ''05'']]"
    "map snd (cargoSegment ''05'' []) = []" by code_simp+
  have a4: "map snd (cargoSegment ''05'' ([[Undefined, Str ''05'']] @ ([Undefined, Str ''5''] # [[]]) @ []))
        = [[Undefined, Str ''05'']]"
    using T[of "Str ''5''" None "[Undefined, Str ''5'']" "[[]]" "[[Undefined, Str ''05'']]" "[]" "[]" "[]" 5]
      c1 c2 by simp
  have e1: "hasDate (cell_at [Num 5] 0) \<and> cell_at [Num 5] 0 \<noteq> Str ''05''
        \<and> (\<forall>x\<in>set [[]]. \<not> hasDate (cell_at x 0))" by code_simp
  have e2: "map snd (expressSegment ''05'' [[Str ''05'']]) = [[Str ''05'']]"
    "map snd (expressSegment ''05'' []) = []" by code_simp+
  have a5: "map snd (expressSegment ''05'' ([] @ ([Num 5] # [[]]) @ [[Str ''05'']])) = [[Str ''05'']]"
    using T[of "Str ''5''" None "[Num 5]" "[[]]" "[]" "[[Str ''05'']]" "[]" "[]" 5] e1 e2 by simp
  have a6: "dateMatches (Str ''5'') 5 \<and> dateMatches (Str ''05'') 5"
    using T[of "Str ''5''" None "[]" "[]" "[]" "[]" "[]" "[]" 5] by blast
  from a1 a2 a3 a4 a5 a6 show ?thesis by blast
qed

section \<open>EXPRESS rows and totals\<close>

lemma foldl_plus_sum_list:
  "foldl (\<lambda>t e. t + f e) (a::jsnum) xs = a + sum_list (map f xs)"
  by (induction xs arbitrary: a) (simp_all add: add.assoc)

lemma todayExpressRows_eq:
  "todayExpressRows d g =
     map expressEntry
       (filter (\<lambda>r. \<not> hasTotal r
                  \<and> (js_truthy (cell_at r 7) \<or> js_truthy (cell_at r 9)
                      \<or> js_truthy (cell_at r 11) \<or> js_truthy (cell_at r 13)))
          (map snd (expressSegment d g)))"
proof -
  have hp: "\<And>r. hasPayment (expressEntry r) =
     (js_truthy (cell_at r 7) \<or> js_truthy (cell_at r 9) \<or> js_truthy (cell_at r 11)
        \<or> js_truthy (cell_at r 13))"
    by (simp add: hasPayment_def expressEntry_def)
  show ?thesis
    unfolding todayExpressRows_def filter_map filter_filter comp_def hp
    by (simp add: conj_commute)
qed

lemma total_in_zero: "\<not> includesStr (toLowerCase (toStr (Num 0))) ''total''"
  by code_simp

lemma hasTotal_iff:
  "hasTotal r \<longleftrightarrow>
     (\<exists>c\<in>set r. \<exists>pre mid post. toStr c = pre @ mid @ post \<and> toLowerCase mid = ''total'')"
proof -
  have cellwise: "\<And>c. (js_truthy c \<and> includesStr (toLowerCase (toStr c)) ''total'')
      \<longleftrightarrow> (\<exists>pre mid post. toStr c = pre @ mid @ post \<and> toLowerCase mid = ''total'')"
  proof -
    fix c
    have inc: "includesStr (toLowerCase (toStr c)) ''total''
        \<longleftrightarrow> (\<exists>pre mid post. toStr c = pre @ mid @ post \<and> toLowerCase mid = ''total'')"
      unfolding toLowerCase_def by (rule includesStr_map_iff)
    have tr: "includesStr (toLowerCase (toStr c)) ''total'' \<Longrightarrow> js_truthy c"
    proof (cases c)
      case Undefined
      assume "includesStr (toLowerCase (toStr c)) ''total''"
      with Undefined show ?thesis by (simp add: toLowerCase_def)
    next
      case (Str s)
      assume "includesStr (toLowerCase (toStr c)) ''total''"
      with Str show ?thesis by (auto simp: toLowerCase_def)
    next
      case (Num n)
      assume "includesStr (toLowerCase (toStr c)) ''total''"
      with Num total_in_zero show ?thesis by (cases "n = 0") auto
    qed
    from inc tr show "(js_truthy c \<and> includesStr (toLowerCase (toStr c)) ''total'')
      \<longleftrightarrow> (\<exists>pre mid post. toStr c = pre @ mid @ post \<and> toLowerCase mid = ''total'')"
      by blast
  qed
  show ?thesis unfolding hasTotal_def list_ex_iff cellwise ..
qed

text \<open>
  C4.  Let \<open>rows\<close> be the rows of the day's express segment that hold the text \<open>total\<close> (in
  any mix of case) in no column and have a truthy cell among the four payment columns
  (7 tunai, 9 mandiri, 11 bca, 13 packing; for a string cell truthy means not empty).
  \<open>totalAWBExpress\<close> is the number of these rows and each of the four totals is the sum
  over these rows of the coerced payment cell, a falsy cell counting as 0.  A row with
  \<open>total\<close> in some column is not among them, so it adds to no count and no sum.
\<close>

theorem express_total_rows_excluded:
  fixes todayDay :: string and expressData :: grid
  defines "rows \<equiv>
     filter (\<lambda>r. \<not> hasTotal r
                \<and> (js_truthy (cell_at r 7) \<or> js_truthy (cell_at r 9)
                    \<or> js_truthy (cell_at r 11) \<or> js_truthy (cell_at r 13)))
        (map snd (expressSegment todayDay expressData))"
  shows "totalAWBExpress (expressTotals todayDay expressData) = length rows
    \<and> totalTunaiExpress (expressTotals todayDay expressData)
        = sum_list (map (\<lambda>r. numberOf (cell_at r 7)) rows)
    \<and> totalTfMandiriExpress (expressTotals todayDay expressData)
        = sum_list (map (\<lambda>r. numberOf (cell_at r 9)) rows)
    \<and> totalTfBcaExpress (expressTotals todayDay expressData)
        = sum_list (map (\<lambda>r. numberOf (cell_at r 11)) rows)
    \<and> totalPackingExpress (expressTotals todayDay expressData)
        = sum_list (map (\<lambda>r. numberOf (cell_at r 13)) rows)
    \<and> (\<forall>r\<in>set rows. \<not> hasTotal r)
    \<and> (hasTotal r \<longleftrightarrow>
         (\<exists>c\<in>set r. \<exists>pre mid post. toStr c = pre @ mid @ post \<and> toLowerCase mid = ''total''))
    \<and> (js_truthy (Str s) \<longleftrightarrow> s \<noteq> [])
    \<and> (js_truthy x \<longrightarrow> numberOf x = parseFloat (stripNonNumeric (toStr x)))
    \<and> (\<not> js_truthy x \<longrightarrow> numberOf x = 0)"
proof -
  have rows: "todayExpressRows todayDay expressData = map expressEntry rows"
    unfolding rows_def by (rule todayExpressRows_eq)
  have c0: "totalAWBExpress (expressTotals todayDay expressData) = length rows"
    by (simp add: expressTotals_def Let_def rows)
  have c1: "totalTunaiExpress (expressTotals todayDay expressData)
        = sum_list (map (\<lambda>r. numberOf (cell_at r 7)) rows)"
    by (simp add: expressTotals_def Let_def rows foldl_plus_sum_list comp_def expressEntry_def)
  have c2: "totalTfMandiriExpress (expressTotals todayDay expressData)
        = sum_list (map (\<lambda>r. numberOf (cell_at r 9)) rows)"
    by (simp add: expressTotals_def Let_def rows foldl_plus_sum_list comp_def expressEntry_def)
  have c3: "totalTfBcaExpress (expressTotals todayDay expressData)
        = sum_list (map (\<lambda>r. numberOf (cell_at r 11)) rows)"
    by (simp add: expressTotals_def Let_def rows foldl_plus_sum_list comp_def expressEntry_def)
  have c4: "totalPackingExpress (expressTotals todayDay expressData)
        = sum_list (map (\<lambda>r. numberOf (cell_at r 13)) rows)"
    by (simp add: expressTotals_def Let_def rows foldl_plus_sum_list comp_def expressEntry_def)
  have c5: "\<forall>r\<in>set rows. \<not> hasTotal r" by (simp add: rows_def)
  have c6: "js_truthy (Str s) \<longleftrightarrow> s \<noteq> []" by simp
  have c7: "js_truthy x \<longrightarrow> numberOf x = parseFloat (stripNonNumeric (toStr x))"
    by (simp add: numberOf_def)
  have c8: "\<not> js_truthy x \<longrightarrow> numberOf x = 0" by (simp add: numberOf_def)
  from c0 c1 c2 c3 c4 c5 c6 c7 c8 hasTotal_iff[of r] show ?thesis by blast
qed

theorem express_total_rows_excluded_witness:
  "totalAWBExpress (expressTotals ''05''
      [[Str ''05'', Undefined, Undefined, Undefined, Undefined, Undefined, Undefined, Str ''Rp 100''],
       [Str '''', Str ''Total'', Undefined, Undefined, Undefined, Undefined, Undefined, Str ''1000''],
       [Str '''', Str ''x'']]) = 1
   \<and> totalTunaiExpress (expressTotals ''05''
      [[Str ''05'', Undefined, Undefined, Undefined, Undefined, Undefined, Undefined, Str ''Rp 100''],
       [Str '''', Str ''Total'', Undefined, Undefined, Undefined, Undefined, Undefined, Str ''1000''],
       [Str '''', Str ''x'']]) = Fin 100
   \<and> hasTotal [Str '''', Str ''Total'', Undefined, Undefined, Undefined, Undefined, Undefined, Str ''1000'']"
proof -
  define g where "g =
      [[Str ''05'', Undefined, Undefined, Undefined, Undefined, Undefined, Undefined, Str ''Rp 100''],
       [Str '''', Str ''Total'', Undefined, Undefined, Undefined, Undefined, Undefined, Str ''1000''],
       [Str '''', Str ''x'']]"
  define r where "r = [Str '''', Str ''Total'', Undefined, Undefined, Undefined, Undefined, Undefined, Str ''1000'']"
  have rows: "filter (\<lambda>r. \<not> hasTotal r
                \<and> (js_truthy (cell_at r 7) \<or> js_truthy (cell_at r 9)
                    \<or> js_truthy (cell_at r 11) \<or> js_truthy (cell_at r 13)))
        (map snd (expressSegment ''05'' g)) = [g ! 0]"
    unfolding g_def by code_simp
  have v: "numberOf (cell_at (g ! 0) 7) = Fin 100" unfolding g_def by code_simp
  have ex: "\<exists>c\<in>set r. \<exists>pre mid post. toStr c = pre @ mid @ post \<and> toLowerCase mid = ''total''"
  proof -
    have "Str ''Total'' \<in> set r" by (simp add: r_def)
    moreover have "toStr (Str ''Total'') = [] @ ''Total'' @ []" by simp
    moreover have "toLowerCase ''Total'' = ''total''" by code_simp
    ultimately show ?thesis by blast
  qed
  from express_total_rows_excluded[of "''05''" g r "''x''" "Str ''x''", unfolded rows] v ex
  show ?thesis unfolding g_def r_def by (simp add: zero_jsnum_def)
qed

section \<open>PENGELUARAN rows\<close>

text \<open>
  C6.  An expense row matches the target day exactly when the text of its date cell is the
  day number as it is or padded to two digits; no row inherits the date of a row above it.
  A matching row with a description that is not blank adds its coerced amount to
  \<open>totalPengeluaran\<close> when the amount is not blank, and otherwise puts its trimmed
  description into \<open>itemsWithoutPrice\<close> and adds nothing.  The row with date \<open>5\<close>,
  description \<open>fuel\<close> and empty amount, read for day 5 (\<open>05\<close>), gives the list
  \<open>[fuel]\<close> and the total 0.
\<close>

theorem pengeluaran_day_match_and_split:
  "(dateMatches (Str s) day \<longleftrightarrow> s = show_nat day \<or> s = padStart2 (show_nat day))
   \<and> (dateMatches (cell_at r 0) day \<and> notBlank (cell_at r 2) \<and> notBlank (cell_at r 11)
        \<longrightarrow> pengeluaranStep day acc r =
              acc \<lparr> totalPengeluaran :=
                      totalPengeluaran acc + parseFloat (stripNonNumeric (toStr (cell_at r 11))) \<rparr>)
   \<and> (dateMatches (cell_at r 0) day \<and> notBlank (cell_at r 2) \<and> \<not> notBlank (cell_at r 11)
        \<longrightarrow> pengeluaranStep day acc r =
              acc \<lparr> itemsWithoutPrice := itemsWithoutPrice acc @ [trim (toStr (cell_at r 2))] \<rparr>)
   \<and> (\<not> dateMatches (cell_at r 0) day \<or> \<not> notBlank (cell_at r 2)
        \<longrightarrow> pengeluaranStep day acc r = acc)
   \<and> getPengeluaranData
        (Inr [[Str ''5'', Undefined, Str ''fuel'', Undefined, Undefined, Undefined, Undefined,
               Undefined, Undefined, Undefined, Undefined, Str '''']]) 5
      = \<lparr> totalPengeluaran = Fin 0, itemsWithoutPrice = [''fuel''] \<rparr>
   \<and> todayDayOf 5 = ''05''"
proof -
  have m: "dateMatches (Str s) day \<longleftrightarrow> s = show_nat day \<or> s = padStart2 (show_nat day)"
  proof -
    have "show_nat day \<noteq> []" by (simp add: show_nat.simps[of day])
    then have "s = show_nat day \<or> s = padStart2 (show_nat day) \<Longrightarrow> s \<noteq> []"
      by (auto simp: padStart2_def)
    then show ?thesis by (auto simp: dateMatches_def)
  qed
  have a: "dateMatches (cell_at r 0) day \<and> notBlank (cell_at r 2) \<and> notBlank (cell_at r 11)
        \<longrightarrow> pengeluaranStep day acc r =
              acc \<lparr> totalPengeluaran :=
                      totalPengeluaran acc + parseFloat (stripNonNumeric (toStr (cell_at r 11))) \<rparr>"
    by (simp add: pengeluaranStep_def Let_def)
  have b: "dateMatches (cell_at r 0) day \<and> notBlank (cell_at r 2) \<and> \<not> notBlank (cell_at r 11)
        \<longrightarrow> pengeluaranStep day acc r =
              acc \<lparr> itemsWithoutPrice := itemsWithoutPrice acc @ [trim (toStr (cell_at r 2))] \<rparr>"
    by (simp add: pengeluaranStep_def Let_def)
  have c: "\<not> dateMatches (cell_at r 0) day \<or> \<not> notBlank (cell_at r 2)
        \<longrightarrow> pengeluaranStep day acc r = acc"
    by (auto simp add: pengeluaranStep_def Let_def)
  have d: "getPengeluaranData
        (Inr [[Str ''5'', Undefined, Str ''fuel'', Undefined, Undefined, Undefined, Undefined,
               Undefined, Undefined, Undefined, Undefined, Str '''']]) 5
      = \<lparr> totalPengeluaran = Fin 0, itemsWithoutPrice = [''fuel''] \<rparr>"
    by code_simp
  have e: "todayDayOf 5 = ''05''" by code_simp
  from m a b c d e show ?thesis by blast
qed

theorem pengeluaran_day_match_and_split_witness:
  "dateMatches (Str ''05'') 5
   \<and> pengeluaranStep 5 \<lparr> totalPengeluaran = Fin 0, itemsWithoutPrice = [] \<rparr>
        [Str ''05'', Undefined, Str '' bensin '', Undefined, Undefined, Undefined, Undefined,
         Undefined, Undefined, Undefined, Undefined, Str ''Rp 250'']
      = \<lparr> totalPengeluaran = Fin 250, itemsWithoutPrice = [] \<rparr>
   \<and> pengeluaranStep 5 \<lparr> totalPengeluaran = Fin 0, itemsWithoutPrice = [] \<rparr>
        [Str ''5'', Undefined, Str '' bensin '']
      = \<lparr> totalPengeluaran = Fin 0, itemsWithoutPrice = [''bensin''] \<rparr>
   \<and> pengeluaranStep 5 \<lparr> totalPengeluaran = Fin 0, itemsWithoutPrice = [] \<rparr>
        [Str '''', Undefined, Str ''bensin'', Undefined, Undefined, Undefined, Undefined,
         Undefined, Undefined, Undefined, Undefined, Str ''100'']
      = \<lparr> totalPengeluaran = Fin 0, itemsWithoutPrice = [] \<rparr>"
proof -
  define a0 where "a0 = \<lparr> totalPengeluaran = Fin 0, itemsWithoutPrice = [] \<rparr>"
  define r1 where "r1 = [Str ''05'', Undefined, Str '' bensin '', Undefined, Undefined, Undefined,
         Undefined, Undefined, Undefined, Undefined, Undefined, Str ''Rp 250'']"
  define r2 where "r2 = [Str ''5'', Undefined, Str '' bensin '']"
  define r3 where "r3 = [Str '''', Undefined, Str ''bensin'', Undefined, Undefined, Undefined,
         Undefined, Undefined, Undefined, Undefined, Undefined, Str ''100'']"
  have pad: "''05'' = show_nat 5 \<or> ''05'' = padStart2 (show_nat 5)" by code_simp
  have h1: "dateMatches (cell_at r1 0) 5 \<and> notBlank (cell_at r1 2) \<and> notBlank (cell_at r1 11)"
    unfolding r1_def by code_simp
  have v1: "parseFloat (stripNonNumeric (toStr (cell_at r1 11))) = Fin 250"
    unfolding r1_def by code_simp
  have h2: "dateMatches (cell_at r2 0) 5 \<and> notBlank (cell_at r2 2) \<and> \<not> notBlank (cell_at r2 11)"
    unfolding r2_def by code_simp
  have v2: "trim (toStr (cell_at r2 2)) = ''bensin''" unfolding r2_def by code_simp
  have h3: "\<not> dateMatches (cell_at r3 0) 5 \<or> \<not> notBlank (cell_at r3 2)"
    unfolding r3_def by code_simp
  note T1 = pengeluaran_day_match_and_split[of "''05''" 5 r1 a0]
  note T2 = pengeluaran_day_match_and_split[of "''05''" 5 r2 a0]
  note T3 = pengeluaran_day_match_and_split[of "''05''" 5 r3 a0]
  have w0: "dateMatches (Str ''05'') 5"
    using T1[THEN conjunct1] pad by (rule iffD2)
  have "pengeluaranStep 5 a0 r1 =
          a0 \<lparr> totalPengeluaran :=
                  totalPengeluaran a0 + parseFloat (stripNonNumeric (toStr (cell_at r1 11))) \<rparr>"
    by (rule mp[OF T1[THEN conjunct2, THEN conjunct1] h1])
  then have w1: "pengeluaranStep 5 a0 r1 = \<lparr> totalPengeluaran = Fin 250, itemsWithoutPrice = [] \<rparr>"
    unfolding v1 by (simp add: a0_def)
  have "pengeluaranStep 5 a0 r2 =
          a0 \<lparr> itemsWithoutPrice := itemsWithoutPrice a0 @ [trim (toStr (cell_at r2 2))] \<rparr>"
    by (rule mp[OF T2[THEN conjunct2, THEN conjunct2, THEN conjunct1] h2])
  then have w2: "pengeluaranStep 5 a0 r2 = \<lparr> totalPengeluaran = Fin 0, itemsWithoutPrice = [''bensin''] \<rparr>"
    unfolding v2 by (simp add: a0_def)
  have "pengeluaranStep 5 a0 r3 = a0"
    by (rule mp[OF T3[THEN conjunct2, THEN conjunct2, THEN conjunct2, THEN conjunct1] h3])
  then have w3: "pengeluaranStep 5 a0 r3 = \<lparr> totalPengeluaran = Fin 0, itemsWithoutPrice = [] \<rparr>"
    by (simp add: a0_def)
  from w0 w1 w2 w3 show ?thesis unfolding a0_def r1_def r2_def r3_def by (intro conjI)
qed

section \<open>Aggregation is a sum over the days\<close>

text \<open>
  C7.  The claim: for every numeric field, aggregating one daily report gives that report's
  field value.  The reducer adds \<open>field || 0\<close>, and \<open>NaN\<close> is falsy: for a daily report whose
  cargo \<open>totalTunai\<close> is \<open>NaN\<close> (the value \<open>getCargoData\<close> returns when a cash cell holds
  no digit) the aggregate of that single report has \<open>totalTunai\<close> 0, not the report's value.
\<close>

theorem aggregateReports_NaN_counterexample:
  "totalTunai_agg (cargo_of (aggregateReports
      [\<lparr> date = ''2025-08-05'', dateDisplay = ''August 5, 2025'', sheet = ''AUG25'', attendance = [],
         cargo = \<lparr> totalAWB = 1, totalAWBOnline = ''TBD'', totalTonase = Fin 2,
                   totalTonaseOnline = Fin 0, totalTunai = NaN, totalTfMandiri = Fin 0,
                   totalTfBca = Fin 0, totalDfod = Fin 0, totalPacking = Fin 0 \<rparr>,
         express = \<lparr> totalAWBExpress = 0, totalTunaiExpress = Fin 0, totalTfMandiriExpress = Fin 0,
                     totalTfBcaExpress = Fin 0, totalPackingExpress = Fin 0 \<rparr>,
         pengeluaran = \<lparr> totalPengeluaran = Fin 0, itemsWithoutPrice = [] \<rparr> \<rparr>])) = Fin 0
   \<and> totalTunai (cargo
      \<lparr> date = ''2025-08-05'', dateDisplay = ''August 5, 2025'', sheet = ''AUG25'', attendance = [],
         cargo = \<lparr> totalAWB = 1, totalAWBOnline = ''TBD'', totalTonase = Fin 2,
                   totalTonaseOnline = Fin 0, totalTunai = NaN, totalTfMandiri = Fin 0,
                   totalTfBca = Fin 0, totalDfod = Fin 0, totalPacking = Fin 0 \<rparr>,
         express = \<lparr> totalAWBExpress = 0, totalTunaiExpress = Fin 0, totalTfMandiriExpress = Fin 0,
                     totalTfBcaExpress = Fin 0, totalPackingExpress = Fin 0 \<rparr>,
         pengeluaran = \<lparr> totalPengeluaran = Fin 0, itemsWithoutPrice = [] \<rparr> \<rparr>) = NaN"
  by (simp add: aggregateReports_def cargoAggStep_def orZero_def zero_jsnum_def)

text \<open>
  C7, as the code has it.  For every numeric field of the cargo, express and expense totals,
  the aggregate of one daily report is that report's value and the aggregate of two is the
  sum of their values, where a value that is \<open>NaN\<close> is counted as 0 (\<open>orZero\<close>, the source's
  \<open>|| 0\<close>); a value other than \<open>NaN\<close> is counted as it is.
\<close>

theorem aggregateReports_additive:
  "totalAWB_agg (cargo_of (aggregateReports [d])) = totalAWB (cargo d)
   \<and> totalTonase_agg (cargo_of (aggregateReports [d])) = orZero (totalTonase (cargo d))
   \<and> totalTonaseOnline_agg (cargo_of (aggregateReports [d])) = orZero (totalTonaseOnline (cargo d))
   \<and> totalTunai_agg (cargo_of (aggregateReports [d])) = orZero (totalTunai (cargo d))
   \<and> totalTfMandiri_agg (cargo_of (aggregateReports [d])) = orZero (totalTfMandiri (cargo d))
   \<and> totalTfBca_agg (cargo_of (aggregateReports [d])) = orZero (totalTfBca (cargo d))
   \<and> totalDfod_agg (cargo_of (aggregateReports [d])) = orZero (totalDfod (cargo d))
   \<and> totalPacking_agg (cargo_of (aggregateReports [d])) = orZero (totalPacking (cargo d))
   \<and> totalAWBExpress_agg (express_of (aggregateReports [d])) = totalAWBExpress (express d)
   \<and> totalTunaiExpress_agg (express_of (aggregateReports [d])) = orZero (totalTunaiExpress (express d))
   \<and> totalTfMandiriExpress_agg (express_of (aggregateReports [d])) = orZero (totalTfMandiriExpress (express d))
   \<and> totalTfBcaExpress_agg (express_of (aggregateReports [d])) = orZero (totalTfBcaExpress (express d))
   \<and> totalPackingExpress_agg (express_of (aggregateReports [d])) = orZero (totalPackingExpress (express d))
   \<and> totalPengeluaran_agg (pengeluaran_of (aggregateReports [d])) = orZero (totalPengeluaran (pengeluaran d))
   \<and> totalAWB_agg (cargo_of (aggregateReports [d1, d2])) = totalAWB (cargo d1) + totalAWB (cargo d2)
   \<and> totalTonase_agg (cargo_of (aggregateReports [d1, d2])) = orZero (totalTonase (cargo d1)) + orZero (totalTonase (cargo d2))
   \<and> totalTonaseOnline_agg (cargo_of (aggregateReports [d1, d2])) = orZero (totalTonaseOnline (cargo d1)) + orZero (totalTonaseOnline (cargo d2))
   \<and> totalTunai_agg (cargo_of (aggregateReports [d1, d2])) = orZero (totalTunai (cargo d1)) + orZero (totalTunai (cargo d2))
   \<and> totalTfMandiri_agg (cargo_of (aggregateReports [d1, d2])) = orZero (totalTfMandiri (cargo d1)) + orZero (totalTfMandiri (cargo d2))
   \<and> totalTfBca_agg (cargo_of (aggregateReports [d1, d2])) = orZero (totalTfBca (cargo d1)) + orZero (totalTfBca (cargo d2))
   \<and> totalDfod_agg (cargo_of (aggregateReports [d1, d2])) = orZero (totalDfod (cargo d1)) + orZero (totalDfod (cargo d2))
   \<and> totalPacking_agg (cargo_of (aggregateReports [d1, d2])) = orZero (totalPacking (cargo d1)) + orZero (totalPacking (cargo d2))
   \<and> totalAWBExpress_agg (express_of (aggregateReports [d1, d2])) = totalAWBExpress (express d1) + totalAWBExpress (express d2)
   \<and> totalTunaiExpress_agg (express_of (aggregateReports [d1, d2])) = orZero (totalTunaiExpress (express d1)) + orZero (totalTunaiExpress (express d2))
   \<and> totalTfMandiriExpress_agg (express_of (aggregateReports [d1, d2])) = orZero (totalTfMandiriExpress (express d1)) + orZero (totalTfMandiriExpress (express d2))
   \<and> totalTfBcaExpress_agg (express_of (aggregateReports [d1, d2])) = orZero (totalTfBcaExpress (express d1)) + orZero (totalTfBcaExpress (express d2))
   \<and> totalPackingExpress_agg (express_of (aggregateReports [d1, d2])) = orZero (totalPackingExpress (express d1)) + orZero (totalPackingExpress (express d2))
   \<and> totalPengeluaran_agg (pengeluaran_of (aggregateReports [d1, d2])) = orZero (totalPengeluaran (pengeluaran d1)) + orZero (totalPengeluaran (pengeluaran d2))
   \<and> (x \<noteq> NaN \<longrightarrow> orZero x = x)
   \<and> orZero NaN = Fin 0"
proof -
  have a0: "totalAWB_agg (cargo_of (aggregateReports [d])) = totalAWB (cargo d)"
    by (simp add: aggregateReports_def cargoAggStep_def expressAggStep_def pengeluaranAggStep_def Let_def)
  have a1: "totalTonase_agg (cargo_of (aggregateReports [d])) = orZero (totalTonase (cargo d))"
    by (simp add: aggregateReports_def cargoAggStep_def expressAggStep_def pengeluaranAggStep_def Let_def)
  have a2: "totalTonaseOnline_agg (cargo_of (aggregateReports [d])) = orZero (totalTonaseOnline (cargo d))"
    by (simp add: aggregateReports_def cargoAggStep_def expressAggStep_def pengeluaranAggStep_def Let_def)
  have a3: "totalTunai_agg (cargo_of (aggregateReports [d])) = orZero (totalTunai (cargo d))"
    by (simp add: aggregateReports_def cargoAggStep_def expressAggStep_def pengeluaranAggStep_def Let_def)
  have a4: "totalTfMandiri_agg (cargo_of (aggregateReports [d])) = orZero (totalTfMandiri (cargo d))"
    by (simp add: aggregateReports_def cargoAggStep_def expressAggStep_def pengeluaranAggStep_def Let_def)
  have a5: "totalTfBca_agg (cargo_of (aggregateReports [d])) = orZero (totalTfBca (cargo d))"
    by (simp add: aggregateReports_def cargoAggStep_def expressAggStep_def pengeluaranAggStep_def Let_def)
  have a6: "totalDfod_agg (cargo_of (aggregateReports [d])) = orZero (totalDfod (cargo d))"
    by (simp add: aggregateReports_def cargoAggStep_def expressAggStep_def pengeluaranAggStep_def Let_def)
  have a7: "totalPacking_agg (cargo_of (aggregateReports [d])) = orZero (totalPacking (cargo d))"
    by (simp add: aggregateReports_def cargoAggStep_def expressAggStep_def pengeluaranAggStep_def Let_def)
  have a8: "totalAWBExpress_agg (express_of (aggregateReports [d])) = totalAWBExpress (express d)"
    by (simp add: aggregateReports_def cargoAggStep_def expressAggStep_def pengeluaranAggStep_def Let_def)
  have a9: "totalTunaiExpress_agg (express_of (aggregateReports [d])) = orZero (totalTunaiExpress (express d))"
    by (simp add: aggregateReports_def cargoAggStep_def expressAggStep_def pengeluaranAggStep_def Let_def)
  have a10: "totalTfMandiriExpress_agg (express_of (aggregateReports [d])) = orZero (totalTfMandiriExpress (express d))"
    by (simp add: aggregateReports_def cargoAggStep_def expressAggStep_def pengeluaranAggStep_def Let_def)
  have a11: "totalTfBcaExpress_agg (express_of (aggregateReports [d])) = orZero (totalTfBcaExpress (express d))"
    by (simp add: aggregateReports_def cargoAggStep_def expressAggStep_def pengeluaranAggStep_def Let_def)
  have a12: "totalPackingExpress_agg (express_of (aggregateReports [d])) = orZero (totalPackingExpress (express d))"
    by (simp add: aggregateReports_def cargoAggStep_def expressAggStep_def pengeluaranAggStep_def Let_def)
  have a13: "totalPengeluaran_agg (pengeluaran_of (aggregateReports [d])) = orZero (totalPengeluaran (pengeluaran d))"
    by (simp add: aggregateReports_def cargoAggStep_def expressAggStep_def pengeluaranAggStep_def Let_def)
  have a14: "totalAWB_agg (cargo_of (aggregateReports [d1, d2])) = totalAWB (cargo d1) + totalAWB (cargo d2)"
    by (simp add: aggregateReports_def cargoAggStep_def expressAggStep_def pengeluaranAggStep_def Let_def)
  have a15: "totalTonase_agg (cargo_of (aggregateReports [d1, d2])) = orZero (totalTonase (cargo d1)) + orZero (totalTonase (cargo d2))"
    by (simp add: aggregateReports_def cargoAggStep_def expressAggStep_def pengeluaranAggStep_def Let_def)
  have a16: "totalTonaseOnline_agg (cargo_of (aggregateReports [d1, d2])) = orZero (totalTonaseOnline (cargo d1)) + orZero (totalTonaseOnline (cargo d2))"
    by (simp add: aggregateReports_def cargoAggStep_def expressAggStep_def pengeluaranAggStep_def Let_def)
  have a17: "totalTunai_agg (cargo_of (aggregateReports [d1, d2])) = orZero (totalTunai (cargo d1)) + orZero (totalTunai (cargo d2))"
    by (simp add: aggregateReports_def cargoAggStep_def expressAggStep_def pengeluaranAggStep_def Let_def)
  have a18: "totalTfMandiri_agg (cargo_of (aggregateReports [d1, d2])) = orZero (totalTfMandiri (cargo d1)) + orZero (totalTfMandiri (cargo d2))"
    by (simp add: aggregateReports_def cargoAggStep_def expressAggStep_def pengeluaranAggStep_def Let_def)
  have a19: "totalTfBca_agg (cargo_of (aggregateReports [d1, d2])) = orZero (totalTfBca (cargo d1)) + orZero (totalTfBca (cargo d2))"
    by (simp add: aggregateReports_def cargoAggStep_def expressAggStep_def pengeluaranAggStep_def Let_def)
  have a20: "totalDfod_agg (cargo_of (aggregateReports [d1, d2])) = orZero (totalDfod (cargo d1)) + orZero (totalDfod (cargo d2))"
    by (simp add: aggregateReports_def cargoAggStep_def expressAggStep_def pengeluaranAggStep_def Let_def)
  have a21: "totalPacking_agg (cargo_of (aggregateReports [d1, d2])) = orZero (totalPacking (cargo d1)) + orZero (totalPacking (cargo d2))"
    by (simp add: aggregateReports_def cargoAggStep_def expressAggStep_def pengeluaranAggStep_def Let_def)
  have a22: "totalAWBExpress_agg (express_of (aggregateReports [d1, d2])) = totalAWBExpress (express d1) + totalAWBExpress (express d2)"
    by (simp add: aggregateReports_def cargoAggStep_def expressAggStep_def pengeluaranAggStep_def Let_def)
  have a23: "totalTunaiExpress_agg (express_of (aggregateReports [d1, d2])) = orZero (totalTunaiExpress (express d1)) + orZero (totalTunaiExpress (express d2))"
    by (simp add: aggregateReports_def cargoAggStep_def expressAggStep_def pengeluaranAggStep_def Let_def)
  have a24: "totalTfMandiriExpress_agg (express_of (aggregateReports [d1, d2])) = orZero (totalTfMandiriExpress (express d1)) + orZero (totalTfMandiriExpress (express d2))"
    by (simp add: aggregateReports_def cargoAggStep_def expressAggStep_def pengeluaranAggStep_def Let_def)
  have a25: "totalTfBcaExpress_agg (express_of (aggregateReports [d1, d2])) = orZero (totalTfBcaExpress (express d1)) + orZero (totalTfBcaExpress (express d2))"
    by (simp add: aggregateReports_def cargoAggStep_def expressAggStep_def pengeluaranAggStep_def Let_def)
  have a26: "totalPackingExpress_agg (express_of (aggregateReports [d1, d2])) = orZero (totalPackingExpress (express d1)) + orZero (totalPackingExpress (express d2))"
    by (simp add: aggregateReports_def cargoAggStep_def expressAggStep_def pengeluaranAggStep_def Let_def)
  have a27: "totalPengeluaran_agg (pengeluaran_of (aggregateReports [d1, d2])) = orZero (totalPengeluaran (pengeluaran d1)) + orZero (totalPengeluaran (pengeluaran d2))"
    by (simp add: aggregateReports_def cargoAggStep_def expressAggStep_def pengeluaranAggStep_def Let_def)
  have b1: "x \<noteq> NaN \<longrightarrow> orZero x = x" by (auto simp: orZero_def)
  have b2: "orZero NaN = Fin 0" by (simp add: orZero_def)
  from a0 a1 a2 a3 a4 a5 a6 a7 a8 a9 a10 a11 a12 a13 a14 a15 a16 a17 a18 a19 a20 a21 a22 a23 a24 a25 a26 a27 b1 b2 show ?thesis by (intro conjI)
qed

theorem aggregateReports_additive_witness:
  "totalTunai_agg (cargo_of (aggregateReports
      [\<lparr> date = ''2025-08-05'', dateDisplay = ''August 5, 2025'', sheet = ''AUG25'', attendance = [],
         cargo = \<lparr> totalAWB = 1, totalAWBOnline = ''TBD'', totalTonase = Fin 2,
                   totalTonaseOnline = Fin 0, totalTunai = Fin 100, totalTfMandiri = Fin 0,
                   totalTfBca = Fin 0, totalDfod = Fin 0, totalPacking = Fin 0 \<rparr>,
         express = \<lparr> totalAWBExpress = 2, totalTunaiExpress = Fin 30, totalTfMandiriExpress = Fin 0,
                     totalTfBcaExpress = Fin 0, totalPackingExpress = Fin 0 \<rparr>,
         pengeluaran = \<lparr> totalPengeluaran = Fin 7, itemsWithoutPrice = [] \<rparr> \<rparr>,
       \<lparr> date = ''2025-08-06'', dateDisplay = ''August 6, 2025'', sheet = ''AUG25'', attendance = [],
         cargo = \<lparr> totalAWB = 3, totalAWBOnline = ''TBD'', totalTonase = Fin 2,
                   totalTonaseOnline = Fin 0, totalTunai = Fin 50, totalTfMandiri = Fin 0,
                   totalTfBca = Fin 0, totalDfod = Fin 0, totalPacking = Fin 0 \<rparr>,
         express = \<lparr> totalAWBExpress = 2, totalTunaiExpress = Fin 12, totalTfMandiriExpress = Fin 0,
                     totalTfBcaExpress = Fin 0, totalPackingExpress = Fin 0 \<rparr>,
         pengeluaran = \<lparr> totalPengeluaran = Fin 5, itemsWithoutPrice = [] \<rparr> \<rparr>])) = Fin 150
   \<and> totalAWB_agg (cargo_of (aggregateReports
      [\<lparr> date = ''2025-08-05'', dateDisplay = ''August 5, 2025'', sheet = ''AUG25'', attendance = [],
         cargo = \<lparr> totalAWB = 1, totalAWBOnline = ''TBD'', totalTonase = Fin 2,
                   totalTonaseOnline = Fin 0, totalTunai = Fin 100, totalTfMandiri = Fin 0,
                   totalTfBca = Fin 0, totalDfod = Fin 0, totalPacking = Fin 0 \<rparr>,
         express = \<lparr> totalAWBExpress = 2, totalTunaiExpress = Fin 30, totalTfMandiriExpress = Fin 0,
                     totalTfBcaExpress = Fin 0, totalPackingExpress = Fin 0 \<rparr>,
         pengeluaran = \<lparr> totalPengeluaran = Fin 7, itemsWithoutPrice = [] \<rparr> \<rparr>,
       \<lparr> date = ''2025-08-06'', dateDisplay = ''August 6, 2025'', sheet = ''AUG25'', attendance = [],
         cargo = \<lparr> totalAWB = 3, totalAWBOnline = ''TBD'', totalTonase = Fin 2,
                   totalTonaseOnline = Fin 0, totalTunai = Fin 50, totalTfMandiri = Fin 0,
                   totalTfBca = Fin 0, totalDfod = Fin 0, totalPacking = Fin 0 \<rparr>,
         express = \<lparr> totalAWBExpress = 2, totalTunaiExpress = Fin 12, totalTfMandiriExpress = Fin 0,
                     totalTfBcaExpress = Fin 0, totalPackingExpress = Fin 0 \<rparr>,
         pengeluaran = \<lparr> totalPengeluaran = Fin 5, itemsWithoutPrice = [] \<rparr> \<rparr>])) = 4
   \<and> Fin 100 \<noteq> NaN \<and> orZero (Fin 100) = Fin 100"
proof -
  define d1 where "d1 = \<lparr> date = ''2025-08-05'', dateDisplay = ''August 5, 2025'', sheet = ''AUG25'', attendance = [],
         cargo = \<lparr> totalAWB = 1, totalAWBOnline = ''TBD'', totalTonase = Fin 2,
                   totalTonaseOnline = Fin 0, totalTunai = Fin 100, totalTfMandiri = Fin 0,
                   totalTfBca = Fin 0, totalDfod = Fin 0, totalPacking = Fin 0 \<rparr>,
         express = \<lparr> totalAWBExpress = 2, totalTunaiExpress = Fin 30, totalTfMandiriExpress = Fin 0,
                     totalTfBcaExpress = Fin 0, totalPackingExpress = Fin 0 \<rparr>,
         pengeluaran = \<lparr> totalPengeluaran = Fin 7, itemsWithoutPrice = [] \<rparr> \<rparr>"
  define d2 where "d2 = \<lparr> date = ''2025-08-06'', dateDisplay = ''August 6, 2025'', sheet = ''AUG25'', attendance = [],
         cargo = \<lparr> totalAWB = 3, totalAWBOnline = ''TBD'', totalTonase = Fin 2,
                   totalTonaseOnline = Fin 0, totalTunai = Fin 50, totalTfMandiri = Fin 0,
                   totalTfBca = Fin 0, totalDfod = Fin 0, totalPacking = Fin 0 \<rparr>,
         express = \<lparr> totalAWBExpress = 2, totalTunaiExpress = Fin 12, totalTfMandiriExpress = Fin 0,
                     totalTfBcaExpress = Fin 0, totalPackingExpress = Fin 0 \<rparr>,
         pengeluaran = \<lparr> totalPengeluaran = Fin 5, itemsWithoutPrice = [] \<rparr> \<rparr>"
  note T = aggregateReports_additive[of d1 d1 d2 "Fin 100"]
  have ne: "Fin 100 \<noteq> NaN" by simp
  have t: "totalTunai_agg (cargo_of (aggregateReports [d1, d2]))
             = orZero (totalTunai (cargo d1)) + orZero (totalTunai (cargo d2))"
    using T by (elim conjE)
  have n: "totalAWB_agg (cargo_of (aggregateReports [d1, d2])) = totalAWB (cargo d1) + totalAWB (cargo d2)"
    using T by (elim conjE)
  have o: "Fin 100 \<noteq> NaN \<longrightarrow> orZero (Fin 100) = Fin 100"
    using T by (elim conjE)
  have v: "orZero (totalTunai (cargo d1)) + orZero (totalTunai (cargo d2)) = Fin 150"
    "totalAWB (cargo d1) + totalAWB (cargo d2) = 4"
    by (simp_all add: d1_def d2_def orZero_def)
  from t n o ne v show ?thesis unfolding d1_def d2_def by simp
qed

section \<open>Failure of a table read\<close>

text \<open>
  C8.  When a read made for the cargo table raises (the search of column B or the read of
  the table itself), \<open>getCargoData\<close> returns its default object: every number 0 and
  \<open>totalAWBOnline\<close> \<open>TBD\<close>.  Likewise the express table gives all zeros, and the expense
  table gives total 0 with an empty \<open>itemsWithoutPrice\<close>.  The daily report is produced all
  the same, and the part of one table is the same whatever the reads of the other tables
  returned.
\<close>

theorem table_fetch_failure_recovered:
  "(cargoSearch f = Inl err
      \<or> (cargoSearch f = Inr searchData \<and> cargoTable f (findEndRow 300 searchData) = Inl err)
      \<longrightarrow> cargo (generateDailyReport f targetDate) =
            \<lparr> totalAWB = 0, totalAWBOnline = ''TBD'', totalTonase = Fin 0, totalTonaseOnline = Fin 0,
              totalTunai = Fin 0, totalTfMandiri = Fin 0, totalTfBca = Fin 0, totalDfod = Fin 0,
              totalPacking = Fin 0 \<rparr>)
   \<and> (expressSearch f = Inl err
      \<or> (expressSearch f = Inr searchData \<and> expressTable f (findEndRow 300 searchData) = Inl err)
      \<longrightarrow> express (generateDailyReport f targetDate) =
            \<lparr> totalAWBExpress = 0, totalTunaiExpress = Fin 0, totalTfMandiriExpress = Fin 0,
              totalTfBcaExpress = Fin 0, totalPackingExpress = Fin 0 \<rparr>)
   \<and> (pengeluaranTable f = Inl err
      \<longrightarrow> pengeluaran (generateDailyReport f targetDate) =
            \<lparr> totalPengeluaran = Fin 0, itemsWithoutPrice = [] \<rparr>)
   \<and> express (generateDailyReport (f \<lparr> cargoSearch := cs, cargoTable := ct \<rparr>) targetDate)
       = express (generateDailyReport f targetDate)
   \<and> pengeluaran (generateDailyReport (f \<lparr> cargoSearch := cs, cargoTable := ct \<rparr>) targetDate)
       = pengeluaran (generateDailyReport f targetDate)
   \<and> cargo (generateDailyReport (f \<lparr> expressSearch := es, expressTable := et \<rparr>) targetDate)
       = cargo (generateDailyReport f targetDate)
   \<and> pengeluaran (generateDailyReport (f \<lparr> expressSearch := es, expressTable := et \<rparr>) targetDate)
       = pengeluaran (generateDailyReport f targetDate)
   \<and> cargo (generateDailyReport (f \<lparr> pengeluaranTable := pt \<rparr>) targetDate)
       = cargo (generateDailyReport f targetDate)
   \<and> express (generateDailyReport (f \<lparr> pengeluaranTable := pt \<rparr>) targetDate)
       = express (generateDailyReport f targetDate)"
proof -
  have c: "cargoSearch f = Inl err
      \<or> (cargoSearch f = Inr searchData \<and> cargoTable f (findEndRow 300 searchData) = Inl err)
      \<longrightarrow> cargo (generateDailyReport f targetDate) =
            \<lparr> totalAWB = 0, totalAWBOnline = ''TBD'', totalTonase = Fin 0, totalTonaseOnline = Fin 0,
              totalTunai = Fin 0, totalTfMandiri = Fin 0, totalTfBca = Fin 0, totalDfod = Fin 0,
              totalPacking = Fin 0 \<rparr>"
    by (auto simp: generateDailyReport_def getCargoData_def cargoDefault_def zero_jsnum_def)
  have e: "expressSearch f = Inl err
      \<or> (expressSearch f = Inr searchData \<and> expressTable f (findEndRow 300 searchData) = Inl err)
      \<longrightarrow> express (generateDailyReport f targetDate) =
            \<lparr> totalAWBExpress = 0, totalTunaiExpress = Fin 0, totalTfMandiriExpress = Fin 0,
              totalTfBcaExpress = Fin 0, totalPackingExpress = Fin 0 \<rparr>"
    by (auto simp: generateDailyReport_def getExpressData_def expressDefault_def zero_jsnum_def)
  have p: "pengeluaranTable f = Inl err
      \<longrightarrow> pengeluaran (generateDailyReport f targetDate) =
            \<lparr> totalPengeluaran = Fin 0, itemsWithoutPrice = [] \<rparr>"
    by (auto simp: generateDailyReport_def getPengeluaranData_def pengeluaranDefault_def zero_jsnum_def)
  have i1: "express (generateDailyReport (f \<lparr> cargoSearch := cs, cargoTable := ct \<rparr>) targetDate)
       = express (generateDailyReport f targetDate)"
    by (simp add: generateDailyReport_def)
  have i2: "pengeluaran (generateDailyReport (f \<lparr> cargoSearch := cs, cargoTable := ct \<rparr>) targetDate)
       = pengeluaran (generateDailyReport f targetDate)"
    by (simp add: generateDailyReport_def)
  have i3: "cargo (generateDailyReport (f \<lparr> expressSearch := es, expressTable := et \<rparr>) targetDate)
       = cargo (generateDailyReport f targetDate)"
    by (simp add: generateDailyReport_def)
  have i4: "pengeluaran (generateDailyReport (f \<lparr> expressSearch := es, expressTable := et \<rparr>) targetDate)
       = pengeluaran (generateDailyReport f targetDate)"
    by (simp add: generateDailyReport_def)
  have i5: "cargo (generateDailyReport (f \<lparr> pengeluaranTable := pt \<rparr>) targetDate)
       = cargo (generateDailyReport f targetDate)"
    by (simp add: generateDailyReport_def)
  have i6: "express (generateDailyReport (f \<lparr> pengeluaranTable := pt \<rparr>) targetDate)
       = express (generateDailyReport f targetDate)"
    by (simp add: generateDailyReport_def)
  from c e p i1 i2 i3 i4 i5 i6 show ?thesis by (intro conjI)
qed

theorem table_fetch_failure_recovered_witness:
  "cargo (generateDailyReport
      \<lparr> attendanceFetch = Inl TransportError,
        cargoSearch = Inr [[Str ''PENGELUARAN'']],
        cargoTable = (\<lambda>endRow. Inl TransportError),
        expressSearch = Inr [],
        expressTable = (\<lambda>endRow. Inr [[Str ''05'', Undefined, Undefined, Undefined, Undefined,
                                         Undefined, Undefined, Str ''100'']]),
        pengeluaranTable = Inl TransportError \<rparr>
      \<lparr> getDate = 5, isoDate = ''2025-08-05'', displayDate = ''August 5, 2025'',
        sheetName = ''AUG25'' \<rparr>)
     = \<lparr> totalAWB = 0, totalAWBOnline = ''TBD'', totalTonase = Fin 0, totalTonaseOnline = Fin 0,
         totalTunai = Fin 0, totalTfMandiri = Fin 0, totalTfBca = Fin 0, totalDfod = Fin 0,
         totalPacking = Fin 0 \<rparr>
   \<and> pengeluaran (generateDailyReport
      \<lparr> attendanceFetch = Inl TransportError,
        cargoSearch = Inr [[Str ''PENGELUARAN'']],
        cargoTable = (\<lambda>endRow. Inl TransportError),
        expressSearch = Inr [],
        expressTable = (\<lambda>endRow. Inr [[Str ''05'', Undefined, Undefined, Undefined, Undefined,
                                         Undefined, Undefined, Str ''100'']]),
        pengeluaranTable = Inl TransportError \<rparr>
      \<lparr> getDate = 5, isoDate = ''2025-08-05'', displayDate = ''August 5, 2025'',
        sheetName = ''AUG25'' \<rparr>)
     = \<lparr> totalPengeluaran = Fin 0, itemsWithoutPrice = [] \<rparr>"
proof -
  define f where "f =
      \<lparr> attendanceFetch = Inl TransportError,
        cargoSearch = Inr [[Str ''PENGELUARAN'']],
        cargoTable = (\<lambda>endRow. Inl TransportError),
        expressSearch = Inr [],
        expressTable = (\<lambda>endRow. Inr [[Str ''05'', Undefined, Undefined, Undefined, Undefined,
                                         Undefined, Undefined, Str ''100'']]),
        pengeluaranTable = Inl TransportError \<rparr>"
  define t where "t = \<lparr> getDate = 5, isoDate = ''2025-08-05'', displayDate = ''August 5, 2025'',
        sheetName = ''AUG25'' \<rparr>"
  note T = table_fetch_failure_recovered[of f TransportError "[[Str ''PENGELUARAN'']]" t]
  have h1: "cargoSearch f = Inl TransportError
      \<or> (cargoSearch f = Inr [[Str ''PENGELUARAN'']]
          \<and> cargoTable f (findEndRow 300 [[Str ''PENGELUARAN'']]) = Inl TransportError)"
    by (simp add: f_def)
  have h2: "pengeluaranTable f = Inl TransportError" by (simp add: f_def)
  have r1: "cargo (generateDailyReport f t) =
            \<lparr> totalAWB = 0, totalAWBOnline = ''TBD'', totalTonase = Fin 0, totalTonaseOnline = Fin 0,
              totalTunai = Fin 0, totalTfMandiri = Fin 0, totalTfBca = Fin 0, totalDfod = Fin 0,
              totalPacking = Fin 0 \<rparr>"
    by (rule mp[OF T[THEN conjunct1] h1])
  have r2: "pengeluaran (generateDailyReport f t) = \<lparr> totalPengeluaran = Fin 0, itemsWithoutPrice = [] \<rparr>"
    by (rule mp[OF T[THEN conjunct2, THEN conjunct2, THEN conjunct1] h2])
  from r1 r2 show ?thesis unfolding f_def t_def by (intro conjI)
qed

end
